theory Spec2Isabelle
  imports Main
begin

section \<open>Python strings\<close>

text \<open>
  A Python \<open>str\<close> is a sequence of Unicode code points, so it is modelled as a list of
  natural numbers. \<open>py\<close> turns an ASCII literal of the source into such a list.
\<close>

type_synonym pystr = "nat list"

definition py :: "string \<Rightarrow> pystr" where
  "py cs = map of_char cs"

text \<open>
  \<open>str.strip()\<close> without argument removes leading and trailing white space. CPython calls
  a code point white space when it is one of U+0009..U+000D, U+001C..U+0020, U+0085,
  U+00A0, U+1680, U+2000..U+200A, U+2028, U+2029, U+202F, U+205F, U+3000.
\<close>

definition isspace :: "nat \<Rightarrow> bool" where
  "isspace c \<longleftrightarrow>
     (9 \<le> c \<and> c \<le> 13) \<or> (28 \<le> c \<and> c \<le> 32) \<or> c = 133 \<or> c = 160 \<or> c = 5760 \<or>
     (8192 \<le> c \<and> c \<le> 8202) \<or> c = 8232 \<or> c = 8233 \<or> c = 8239 \<or> c = 8287 \<or> c = 12288"

definition strip :: "pystr \<Rightarrow> pystr" where
  "strip s = rev (dropWhile isspace (rev (dropWhile isspace s)))"

text \<open>A string is empty or white space only when every code point of it is white space.\<close>

definition blank :: "pystr \<Rightarrow> bool" where
  "blank s = list_all isspace s"

definition startswith :: "pystr \<Rightarrow> pystr \<Rightarrow> bool" where
  "startswith s p \<longleftrightarrow> take (length p) s = p"

text \<open>\<open>s.split(sep)\<close> for a separator of one code point; the result is never empty.\<close>

fun py_split :: "nat \<Rightarrow> pystr \<Rightarrow> pystr list" where
  "py_split sep [] = [[]]"
| "py_split sep (c # cs) =
     (if c = sep then [] # py_split sep cs
      else (case py_split sep cs of
              p # ps \<Rightarrow> (c # p) # ps
            | [] \<Rightarrow> [[c]]))"

text \<open>\<open>sep.join(xs)\<close>\<close>

fun join :: "pystr \<Rightarrow> pystr list \<Rightarrow> pystr" where
  "join sep [] = []"
| "join sep [x] = x"
| "join sep (x # y # ys) = x @ sep @ join sep (y # ys)"

section \<open>Pure helpers of the source\<close>

text \<open>
  \<open>build_spotdl_cmd(query, out_dir, bitrate, user_auth)\<close>. The first element of the
  command is \<open>sys.executable\<close>, a value of the running interpreter, taken as a parameter.
\<close>

definition build_spotdl_cmd :: "pystr \<Rightarrow> pystr \<Rightarrow> pystr \<Rightarrow> pystr \<Rightarrow> bool \<Rightarrow> pystr list" where
  "build_spotdl_cmd sys_executable query out_dir bitrate user_auth =
     (let cmd = [sys_executable,
                 py ''-m'', py ''spotdl'', py ''download'', query,
                 py ''--output'', out_dir,
                 py ''--format'', py ''m4a'',
                 py ''--bitrate'', bitrate]
      in if user_auth then cmd @ [py ''--user-auth''] else cmd)"

text \<open>\<open>_sanitize_sc_url(url) = url.split("?")[0].split("#")[0]\<close>\<close>

definition sanitize_sc_url :: "pystr \<Rightarrow> pystr" where
  "sanitize_sc_url url = hd (py_split (of_char CHR ''#'') (hd (py_split (of_char CHR ''?'') url)))"

section \<open>Python values and exceptions\<close>

text \<open>
  The info dictionary of yt-dlp and the result of \<open>json.loads\<close> are values of type \<open>Any\<close>:
  \<open>None\<close>, booleans, numbers, strings, lists and dictionaries with string keys. The code
  looks at a number only through its truth value, so a float is represented by an integer
  of the same truth value. A dictionary is an association list; a lookup takes the first
  binding of the key.
\<close>

datatype pyval =
    PNone
  | PBool bool
  | PInt int
  | PStr pystr
  | PList "pyval list"
  | PDict "(pystr \<times> pyval) list"

text \<open>
  An exception is its class and the text \<open>str(exc)\<close>. Every exception of the model is a
  subclass of \<open>Exception\<close>, the ones \<open>except Exception\<close> catches.
\<close>

datatype exn_class = ValueError | RuntimeError | AttributeError | TypeError | OtherException pystr

datatype exn = Exn exn_class pystr

fun exn_class_of :: "exn \<Rightarrow> exn_class" where
  "exn_class_of (Exn c m) = c"

fun str_of_exn :: "exn \<Rightarrow> pystr" where
  "str_of_exn (Exn c m) = m"

fun truthy :: "pyval \<Rightarrow> bool" where
  "truthy PNone = False"
| "truthy (PBool b) = b"
| "truthy (PInt n) = (n \<noteq> 0)"
| "truthy (PStr s) = (s \<noteq> [])"
| "truthy (PList xs) = (xs \<noteq> [])"
| "truthy (PDict kvs) = (kvs \<noteq> [])"

text \<open>\<open>a or b\<close>\<close>

definition py_or :: "pyval \<Rightarrow> pyval \<Rightarrow> pyval" where
  "py_or a b = (if truthy a then a else b)"

fun type_name :: "pyval \<Rightarrow> pystr" where
  "type_name PNone = py ''NoneType''"
| "type_name (PBool b) = py ''bool''"
| "type_name (PInt n) = py ''int''"
| "type_name (PStr s) = py ''str''"
| "type_name (PList xs) = py ''list''"
| "type_name (PDict kvs) = py ''dict''"

definition no_attribute :: "pyval \<Rightarrow> string \<Rightarrow> exn" where
  "no_attribute v a =
     Exn AttributeError (py [CHR 0x27] @ type_name v @ py [CHR 0x27] @
       py '' object has no attribute '' @ py [CHR 0x27] @ py a @ py [CHR 0x27])"

text \<open>\<open>d.get(key, default)\<close>: only a dictionary has the method.\<close>

fun py_get :: "pyval \<Rightarrow> pystr \<Rightarrow> pyval \<Rightarrow> exn + pyval" where
  "py_get (PDict kvs) key dflt = (case map_of kvs key of Some v \<Rightarrow> Inr v | None \<Rightarrow> Inr dflt)"
| "py_get v key dflt = Inl (no_attribute v ''get'')"

text \<open>\<open>v.strip()\<close>: only a string has the method.\<close>

fun py_strip :: "pyval \<Rightarrow> exn + pystr" where
  "py_strip (PStr s) = Inr (strip s)"
| "py_strip v = Inl (no_attribute v ''strip'')"

text \<open>
  \<open>for entry in v\<close>: a list gives its elements, a string its characters, a dictionary its
  keys; nothing else can be iterated.
\<close>

fun py_iter :: "pyval \<Rightarrow> exn + pyval list" where
  "py_iter (PList xs) = Inr xs"
| "py_iter (PStr s) = Inr (map (\<lambda>c. PStr [c]) s)"
| "py_iter (PDict kvs) = Inr (map (\<lambda>kv. PStr (fst kv)) kvs)"
| "py_iter v =
     Inl (Exn TypeError (py [CHR 0x27] @ type_name v @ py [CHR 0x27] @ py '' object is not iterable''))"

section \<open>Query extraction\<close>

text \<open>
  The body of the loop of \<open>_extract_sc_queries_from_ydl_json\<close>, with the list
  \<open>queries\<close> built so far as accumulator. An exception leaves the loop at once.
\<close>

fun extract_loop :: "pyval list \<Rightarrow> pystr list \<Rightarrow> exn + pystr list" where
  "extract_loop [] queries = Inr queries"
| "extract_loop (entry # rest) queries =
     (case py_get entry (py ''title'') PNone of
        Inl e \<Rightarrow> Inl e
      | Inr t \<Rightarrow>
     (case py_strip (py_or t (PStr [])) of
        Inl e \<Rightarrow> Inl e
      | Inr title \<Rightarrow>
     (case py_get entry (py ''uploader'') PNone of
        Inl e \<Rightarrow> Inl e
      | Inr u \<Rightarrow>
     (case py_strip (py_or u (PStr [])) of
        Inl e \<Rightarrow> Inl e
      | Inr uploader \<Rightarrow>
          if title \<noteq> []
          then extract_loop rest
                 (queries @ [if uploader \<noteq> [] then uploader @ py '' - '' @ title else title])
          else extract_loop rest queries))))"

definition extract_sc_queries_from_ydl_json :: "pyval \<Rightarrow> exn + pystr list" where
  "extract_sc_queries_from_ydl_json data =
     (case py_get data (py ''entries'') (PList []) of
        Inl e \<Rightarrow> Inl e
      | Inr v \<Rightarrow>
          (case py_iter (py_or v (PList [])) of
             Inl e \<Rightarrow> Inl e
           | Inr entries \<Rightarrow> extract_loop entries []))"

text \<open>
  A track record of the specification: optional \<open>title\<close> and \<open>uploader\<close> strings. As a
  Python dictionary it has the keys that are present.
\<close>

record track_record =
  title :: "pystr option"
  uploader :: "pystr option"

definition entry_of :: "track_record \<Rightarrow> pyval" where
  "entry_of r =
     PDict ((case title r of Some t \<Rightarrow> [(py ''title'', PStr t)] | None \<Rightarrow> []) @
            (case uploader r of Some u \<Rightarrow> [(py ''uploader'', PStr u)] | None \<Rightarrow> []))"

definition playlist_of :: "track_record list \<Rightarrow> pyval" where
  "playlist_of rs = PDict [(py ''entries'', PList (map entry_of rs))]"

text \<open>The trimmed field of a record, empty when the field is absent.\<close>

definition trimmed :: "pystr option \<Rightarrow> pystr" where
  "trimmed f = (case f of Some s \<Rightarrow> strip s | None \<Rightarrow> [])"

definition has_title :: "track_record \<Rightarrow> bool" where
  "has_title r = (case title r of Some t \<Rightarrow> \<not> blank t | None \<Rightarrow> False)"

definition query_of :: "track_record \<Rightarrow> pystr" where
  "query_of r =
     (if trimmed (uploader r) \<noteq> []
      then trimmed (uploader r) @ py '' - '' @ trimmed (title r)
      else trimmed (title r))"

section \<open>The world outside the resolver\<close>

text \<open>
  The resolver reaches the outside through \<open>sys.executable\<close>, the yt-dlp library
  (\<open>YoutubeDL(opts).extract_info(url, download=False)\<close>, the import included),
  \<open>subprocess.run\<close>, \<open>json.loads\<close> and \<open>shutil.which\<close>. They are parameters of the model:
  each call returns a value or raises. One resolution never makes the same call twice, so
  a function of the arguments describes any behaviour of the outside.
\<close>

record completed_process =
  returncode :: int
  stdout :: pystr
  stderr :: pystr

record env =
  sys_executable :: pystr
  extract_info :: "pyval \<Rightarrow> pystr \<Rightarrow> exn + pyval"
  subprocess_run :: "pystr list \<Rightarrow> exn + completed_process"
  json_loads :: "pystr \<Rightarrow> exn + pyval"
  which :: "pystr \<Rightarrow> pystr option"

text \<open>The calls to the outside that a resolution makes, in order, are its trace.\<close>

datatype call = ExtractInfo pyval pystr | SubprocessRun "pystr list" | Which pystr

section \<open>The resolver\<close>

definition ydl_opts :: "bool \<Rightarrow> pyval" where
  "ydl_opts flat =
     PDict [(py ''skip_download'', PBool True), (py ''quiet'', PBool True),
            (py ''extract_flat'', if flat then PStr (py ''in_playlist'') else PBool False)]"

text \<open>\<open>_python_api(flat)\<close>\<close>

definition python_api :: "env \<Rightarrow> pystr \<Rightarrow> bool \<Rightarrow> exn + pystr list" where
  "python_api env sc_url flat =
     (case extract_info env (ydl_opts flat) sc_url of
        Inl e \<Rightarrow> Inl e
      | Inr data \<Rightarrow> extract_sc_queries_from_ydl_json data)"

definition python_api_call :: "pystr \<Rightarrow> bool \<Rightarrow> call" where
  "python_api_call sc_url flat = ExtractInfo (ydl_opts flat) sc_url"

text \<open>\<open>_extract_with_ydl(ydl_cmd, flat)\<close>\<close>

definition ydl_cmdline :: "pystr list \<Rightarrow> pystr \<Rightarrow> bool \<Rightarrow> pystr list" where
  "ydl_cmdline ydl_cmd sc_url flat =
     ydl_cmd @ (if flat then [py ''--flat-playlist''] else []) @ [py ''-J'', sc_url]"

definition extract_with_ydl :: "env \<Rightarrow> pystr \<Rightarrow> pystr list \<Rightarrow> bool \<Rightarrow> exn + pystr list" where
  "extract_with_ydl env sc_url ydl_cmd flat =
     (case subprocess_run env (ydl_cmdline ydl_cmd sc_url flat) of
        Inl e \<Rightarrow> Inl e
      | Inr proc \<Rightarrow>
          if returncode proc \<noteq> 0
          then Inl (Exn RuntimeError
                 (if strip (stderr proc) \<noteq> [] then strip (stderr proc) else strip (stdout proc)))
          else (case json_loads env (stdout proc) of
                  Inl e \<Rightarrow> Inl e
                | Inr data \<Rightarrow> extract_sc_queries_from_ydl_json data))"

definition extract_with_ydl_call :: "pystr \<Rightarrow> pystr list \<Rightarrow> bool \<Rightarrow> call" where
  "extract_with_ydl_call sc_url ydl_cmd flat = SubprocessRun (ydl_cmdline ydl_cmd sc_url flat)"

text \<open>
  A tier either returns from the resolver with its queries or goes on with the list
  \<open>errors\<close>, one string longer.
\<close>

datatype tier_result = Return "pystr list" | Continue "pystr list"

text \<open>
  The \<open>try\<close> block that the source writes once per tier:
  \<^verbatim>\<open>
  try:
      q = attempt(flat=True)
      if not q:
          q = attempt(flat=False)
      if q:
          return q
      errors.append(empty_msg)
  except Exception as exc:
      errors.append(f"{error_prefix}{exc}")
  \<close>
  \<open>call_of\<close> names the outside call an attempt makes, for the trace.
\<close>

definition run_tier ::
  "(bool \<Rightarrow> exn + pystr list) \<Rightarrow> (bool \<Rightarrow> call) \<Rightarrow> pystr \<Rightarrow> pystr \<Rightarrow>
   pystr list \<Rightarrow> call list \<Rightarrow> tier_result \<times> call list" where
  "run_tier attempt call_of empty_msg error_prefix errors tr =
     (case attempt True of
        Inl exc \<Rightarrow> (Continue (errors @ [error_prefix @ str_of_exn exc]), tr @ [call_of True])
      | Inr q1 \<Rightarrow>
          (case (if q1 = [] then (attempt False, tr @ [call_of True, call_of False])
                 else (Inr q1, tr @ [call_of True])) of
             (Inl exc, tr') \<Rightarrow> (Continue (errors @ [error_prefix @ str_of_exn exc]), tr')
           | (Inr q, tr') \<Rightarrow>
               if q \<noteq> [] then (Return q, tr')
               else (Continue (errors @ [empty_msg]), tr')))"

definition tier1 :: "env \<Rightarrow> pystr \<Rightarrow> pystr list \<Rightarrow> call list \<Rightarrow> tier_result \<times> call list" where
  "tier1 env sc_url errors tr =
     run_tier (python_api env sc_url) (python_api_call sc_url)
       (py ''Python API returned no entries even after full extraction'')
       (py ''Python API error: '') errors tr"

definition tier2 :: "env \<Rightarrow> pystr \<Rightarrow> pystr list \<Rightarrow> call list \<Rightarrow> tier_result \<times> call list" where
  "tier2 env sc_url errors tr =
     run_tier (extract_with_ydl env sc_url [sys_executable env, py ''-m'', py ''yt_dlp''])
       (extract_with_ydl_call sc_url [sys_executable env, py ''-m'', py ''yt_dlp''])
       (py ''python -m yt_dlp returned no entries even after full extraction'')
       (py ''python -m yt_dlp error: '') errors tr"

text \<open>
  \<open>exe = shutil.which("yt-dlp") or shutil.which("yt-dlp.exe")\<close>: the second lookup is
  made only when the first gives \<open>None\<close> or the empty string.
\<close>

definition locate_exe :: "env \<Rightarrow> pystr option \<times> call list" where
  "locate_exe env =
     (case which env (py ''yt-dlp'') of
        Some p \<Rightarrow>
          if p \<noteq> [] then (Some p, [Which (py ''yt-dlp'')])
          else (which env (py ''yt-dlp.exe''), [Which (py ''yt-dlp''), Which (py ''yt-dlp.exe'')])
      | None \<Rightarrow> (which env (py ''yt-dlp.exe''), [Which (py ''yt-dlp''), Which (py ''yt-dlp.exe'')]))"

definition tier3 :: "env \<Rightarrow> pystr \<Rightarrow> pystr list \<Rightarrow> call list \<Rightarrow> tier_result \<times> call list" where
  "tier3 env sc_url errors tr =
     (case locate_exe env of
        (exe, calls) \<Rightarrow>
          (case exe of
             Some p \<Rightarrow>
               if p \<noteq> []
               then run_tier (extract_with_ydl env sc_url [p]) (extract_with_ydl_call sc_url [p])
                      (py ''yt-dlp executable returned no entries even after full extraction'')
                      (py ''Executable error: '') errors (tr @ calls)
               else (Continue (errors @ [py ''yt-dlp executable not found on PATH'']), tr @ calls)
           | None \<Rightarrow>
               (Continue (errors @ [py ''yt-dlp executable not found on PATH'']), tr @ calls)))"

text \<open>The message of the \<open>ValueError\<close>; it ends with the ellipsis U+2026.\<close>

definition invalid_url_message :: pystr where
  "invalid_url_message =
     py ''The URL does not appear to be a full SoundCloud link. '' @
     py ''Please paste the entire playlist URL, including https://soundcloud.com/'' @ [8230]"

definition extraction_failed_summary :: pystr where
  "extraction_failed_summary = py ''yt-dlp could not extract the SoundCloud set.''"

text \<open>
  \<open>get_soundcloud_queries(sc_url)\<close>: the value returned or the exception raised, and the
  trace of the calls made.
\<close>

definition get_soundcloud_queries :: "env \<Rightarrow> pystr \<Rightarrow> (exn + pystr list) \<times> call list" where
  "get_soundcloud_queries env url =
     (let sc_url = sanitize_sc_url (strip url) in
      if \<not> startswith sc_url (py ''http'')
      then (Inl (Exn ValueError invalid_url_message), [])
      else
        (case tier1 env sc_url [] [] of
           (Return q, tr) \<Rightarrow> (Inr q, tr)
         | (Continue errors1, tr1) \<Rightarrow>
        (case tier2 env sc_url errors1 tr1 of
           (Return q, tr) \<Rightarrow> (Inr q, tr)
         | (Continue errors2, tr2) \<Rightarrow>
        (case tier3 env sc_url errors2 tr2 of
           (Return q, tr) \<Rightarrow> (Inr q, tr)
         | (Continue errors3, tr3) \<Rightarrow>
             (Inl (Exn RuntimeError (extraction_failed_summary @ join (py ''.'') errors3)),
              tr3)))))"

text \<open>The tier a call of the trace belongs to.\<close>

fun tier_of :: "call \<Rightarrow> nat" where
  "tier_of (ExtractInfo opts u) = 1"
| "tier_of (SubprocessRun cmd) = (if take 2 (tl cmd) = [py ''-m'', py ''yt_dlp''] then 2 else 3)"
| "tier_of (Which name) = 3"

section \<open>What a backend answered\<close>

text \<open>
  The statements about the tiers speak of the answers a backend gives to its two attempts,
  \<open>attempt True\<close> in flat mode and \<open>attempt False\<close> in full mode. The following three
  notions are read off these answers alone, by the rule that the full attempt counts only
  after a flat attempt that found no track. A backend finds nothing when its flat attempt
  raises, or finds no track and the full attempt raises or finds no track either.
\<close>

definition finds_nothing :: "(bool \<Rightarrow> exn + pystr list) \<Rightarrow> bool" where
  "finds_nothing attempt =
     (case attempt True of
        Inl exc \<Rightarrow> True
      | Inr q \<Rightarrow> q = [] \<and> (case attempt False of Inl exc \<Rightarrow> True | Inr q' \<Rightarrow> q' = []))"

text \<open>The calls that are due: the flat one, and the full one after an empty flat answer.\<close>

definition attempt_calls :: "(bool \<Rightarrow> exn + pystr list) \<Rightarrow> (bool \<Rightarrow> call) \<Rightarrow> call list" where
  "attempt_calls attempt call_of =
     (case attempt True of
        Inl exc \<Rightarrow> [call_of True]
      | Inr q \<Rightarrow> if q = [] then [call_of True, call_of False] else [call_of True])"

text \<open>
  The reason to report for a backend that found nothing: the text of the exception after
  the prefix of the tier, or the message that the tier returned no entries.
\<close>

definition failure_reason :: "(bool \<Rightarrow> exn + pystr list) \<Rightarrow> pystr \<Rightarrow> pystr \<Rightarrow> pystr" where
  "failure_reason attempt empty_msg error_prefix =
     (case attempt True of
        Inl exc \<Rightarrow> error_prefix @ str_of_exn exc
      | Inr q \<Rightarrow>
          (case attempt False of
             Inl exc \<Rightarrow> error_prefix @ str_of_exn exc
           | Inr q' \<Rightarrow> empty_msg))"

section \<open>Sample environments\<close>

text \<open>The info dictionary of the unit test of the source, and one without tracks.\<close>

definition sample_ydl_json :: pyval where
  "sample_ydl_json =
     PDict [(py ''entries'',
             PList [PDict [(py ''title'', PStr (py ''Foo'')), (py ''uploader'', PStr (py ''Bar''))],
                    PDict [(py ''title'', PStr (py ''Baz''))]])]"

definition empty_ydl_json :: pyval where
  "empty_ydl_json = PDict [(py ''entries'', PList [])]"

definition sample_url :: pystr where
  "sample_url = py ''https://soundcloud.com/user/playlist''"

definition which_usr_bin :: "pystr \<Rightarrow> pystr option" where
  "which_usr_bin name = (if name = py ''yt-dlp'' then Some (py ''/usr/bin/yt-dlp'') else None)"

text \<open>
  The library finds no track in flat mode and the two tracks in full mode; there is no
  interpreter module and no executable to fall back on.
\<close>

definition env_full_only :: env where
  "env_full_only =
     \<lparr> sys_executable = py ''/usr/bin/python3'',
       extract_info = (\<lambda>opts u. if opts = ydl_opts True then Inr empty_ydl_json
                                  else Inr sample_ydl_json),
       subprocess_run = (\<lambda>cmd. Inl (Exn (OtherException (py ''FileNotFoundError''))
                                       (py ''No such file or directory''))),
       json_loads = (\<lambda>s. Inl (Exn ValueError (py ''Expecting value''))),
       which = (\<lambda>name. None) \<rparr>"

text \<open>Every attempt of every tier runs without error and finds no track.\<close>

definition env_all_empty :: env where
  "env_all_empty =
     \<lparr> sys_executable = py ''/usr/bin/python3'',
       extract_info = (\<lambda>opts u. Inr empty_ydl_json),
       subprocess_run = (\<lambda>cmd. Inr \<lparr> returncode = 0, stdout = py ''{}'', stderr = [] \<rparr>),
       json_loads = (\<lambda>s. Inr empty_ydl_json),
       which = which_usr_bin \<rparr>"

text \<open>Every attempt of every tier fails: the library raises, the processes exit with 1.\<close>

definition env_all_raise :: env where
  "env_all_raise =
     \<lparr> sys_executable = py ''/usr/bin/python3'',
       extract_info = (\<lambda>opts u. Inl (Exn (OtherException (py ''DownloadError''))
                                        (py ''ERROR: boom''))),
       subprocess_run = (\<lambda>cmd. Inr \<lparr> returncode = 1, stdout = [], stderr = py ''ERROR: boom '' \<rparr>),
       json_loads = (\<lambda>s. Inl (Exn ValueError (py ''Expecting value''))),
       which = which_usr_bin \<rparr>"

text \<open>The library is broken; the interpreter module finds the two tracks in flat mode.\<close>

definition env_module_works :: env where
  "env_module_works =
     \<lparr> sys_executable = py ''/usr/bin/python3'',
       extract_info = (\<lambda>opts u. Inl (Exn (OtherException (py ''ModuleNotFoundError''))
                                        (py ''No module named yt_dlp''))),
       subprocess_run = (\<lambda>cmd. Inr \<lparr> returncode = 0, stdout = py ''{}'', stderr = [] \<rparr>),
       json_loads = (\<lambda>s. Inr sample_ydl_json),
       which = which_usr_bin \<rparr>"

text \<open>The library finds the two tracks in flat mode already.\<close>

definition env_flat_works :: env where
  "env_flat_works =
     \<lparr> sys_executable = py ''/usr/bin/python3'',
       extract_info = (\<lambda>opts u. Inr sample_ydl_json),
       subprocess_run = (\<lambda>cmd. Inl (Exn (OtherException (py ''FileNotFoundError''))
                                       (py ''No such file or directory''))),
       json_loads = (\<lambda>s. Inl (Exn ValueError (py ''Expecting value''))),
       which = (\<lambda>name. None) \<rparr>"

text \<open>
  A process prints \<open>none\<close> when run with \<open>--flat-playlist\<close> and \<open>tracks\<close> otherwise;
  \<open>json.loads\<close> reads the first as a playlist without tracks, the second as the sample.
\<close>

definition full_only_output :: "pystr list \<Rightarrow> completed_process" where
  "full_only_output cmd =
     \<lparr> returncode = 0,
       stdout = (if py ''--flat-playlist'' \<in> set cmd then py ''none'' else py ''tracks''),
       stderr = [] \<rparr>"

definition loads_none_or_tracks :: "pystr \<Rightarrow> exn + pyval" where
  "loads_none_or_tracks s = (if s = py ''none'' then Inr empty_ydl_json else Inr sample_ydl_json)"

text \<open>The library is broken; the interpreter module finds the tracks in full mode only.\<close>

definition env_module_full_only :: env where
  "env_module_full_only =
     \<lparr> sys_executable = py ''/usr/bin/python3'',
       extract_info = (\<lambda>opts u. Inl (Exn (OtherException (py ''ModuleNotFoundError''))
                                        (py ''No module named yt_dlp''))),
       subprocess_run = (\<lambda>cmd. Inr (full_only_output cmd)),
       json_loads = loads_none_or_tracks,
       which = which_usr_bin \<rparr>"

text \<open>A process that is not the executable exits with 1: there is no module.\<close>

definition no_module_output :: completed_process where
  "no_module_output = \<lparr> returncode = 1, stdout = [], stderr = py ''No module named yt_dlp'' \<rparr>"

text \<open>Library and module are missing; the executable finds the tracks in flat mode.\<close>

definition env_exe_works :: env where
  "env_exe_works =
     \<lparr> sys_executable = py ''/usr/bin/python3'',
       extract_info = (\<lambda>opts u. Inl (Exn (OtherException (py ''ModuleNotFoundError''))
                                        (py ''No module named yt_dlp''))),
       subprocess_run = (\<lambda>cmd. if take 1 cmd = [py ''/usr/bin/yt-dlp'']
                                then Inr \<lparr> returncode = 0, stdout = py ''tracks'', stderr = [] \<rparr>
                                else Inr no_module_output),
       json_loads = loads_none_or_tracks,
       which = which_usr_bin \<rparr>"

text \<open>Library and module are missing; the executable finds the tracks in full mode only.\<close>

definition env_exe_full_only :: env where
  "env_exe_full_only =
     \<lparr> sys_executable = py ''/usr/bin/python3'',
       extract_info = (\<lambda>opts u. Inl (Exn (OtherException (py ''ModuleNotFoundError''))
                                        (py ''No module named yt_dlp''))),
       subprocess_run = (\<lambda>cmd. if take 1 cmd = [py ''/usr/bin/yt-dlp'']
                                then Inr (full_only_output cmd)
                                else Inr no_module_output),
       json_loads = loads_none_or_tracks,
       which = which_usr_bin \<rparr>"

text \<open>Library and module are missing and no executable is on the path.\<close>

definition env_nothing_installed :: env where
  "env_nothing_installed =
     \<lparr> sys_executable = py ''/usr/bin/python3'',
       extract_info = (\<lambda>opts u. Inl (Exn (OtherException (py ''ModuleNotFoundError''))
                                        (py ''No module named yt_dlp''))),
       subprocess_run = (\<lambda>cmd. Inr no_module_output),
       json_loads = loads_none_or_tracks,
       which = (\<lambda>name. None) \<rparr>"

section \<open>Properties of the string helpers\<close>

lemma py_split_not_Nil: "py_split sep s \<noteq> []"
  by (induction s) (auto split: list.splits)

lemma hd_py_split: "hd (py_split sep s) = takeWhile (\<lambda>c. c \<noteq> sep) s"
proof (induction s)
  case Nil
  show ?case by simp
next
  case (Cons c cs)
  then show ?case
    using py_split_not_Nil [of sep cs] by (cases "py_split sep cs") auto
qed

lemma takeWhile_twice: "takeWhile Q (takeWhile P s) = takeWhile (\<lambda>c. P c \<and> Q c) s"
  by (induction s) auto

lemma sanitize_sc_url_takeWhile:
  "sanitize_sc_url url = takeWhile (\<lambda>c. c \<noteq> of_char CHR ''?'' \<and> c \<noteq> of_char CHR ''#'') url"
  by (simp add: sanitize_sc_url_def hd_py_split takeWhile_twice)

text \<open>
  C5. Sanitization keeps exactly the part of the URL before the first \<open>?\<close> or \<open>#\<close>,
  whichever comes first (the whole URL when there is none): the URL is the kept part
  followed by a rest that is empty or starts with \<open>?\<close> or \<open>#\<close>, and the kept part holds
  neither character. Sanitizing twice equals sanitizing once. The scenario of the
  specification is the last conjunct.
\<close>

theorem sanitize_sc_url_cuts_and_idempotent:
  "sanitize_sc_url url =
     takeWhile (\<lambda>c. c \<noteq> of_char CHR ''?'' \<and> c \<noteq> of_char CHR ''#'') url
   \<and> url = sanitize_sc_url url @
       dropWhile (\<lambda>c. c \<noteq> of_char CHR ''?'' \<and> c \<noteq> of_char CHR ''#'') url
   \<and> of_char CHR ''?'' \<notin> set (sanitize_sc_url url)
   \<and> of_char CHR ''#'' \<notin> set (sanitize_sc_url url)
   \<and> sanitize_sc_url (sanitize_sc_url url) = sanitize_sc_url url
   \<and> sanitize_sc_url (py ''https://soundcloud.com/user/playlist?utm_source=clip#frag'')
       = py ''https://soundcloud.com/user/playlist''"
proof -
  let ?P = "\<lambda>c::nat. c \<noteq> of_char CHR ''?'' \<and> c \<noteq> of_char CHR ''#''"
  have a: "sanitize_sc_url url = takeWhile ?P url"
    by (rule sanitize_sc_url_takeWhile)
  have b: "url = sanitize_sc_url url @ dropWhile ?P url"
    by (simp only: a takeWhile_dropWhile_id)
  have c: "of_char CHR ''?'' \<notin> set (sanitize_sc_url url)"
    unfolding a by (auto dest: set_takeWhileD)
  have c': "of_char CHR ''#'' \<notin> set (sanitize_sc_url url)"
    unfolding a by (auto dest: set_takeWhileD)
  have d: "sanitize_sc_url (sanitize_sc_url url) = sanitize_sc_url url"
    by (simp add: sanitize_sc_url_takeWhile takeWhile_twice)
  have e: "sanitize_sc_url (py ''https://soundcloud.com/user/playlist?utm_source=clip#frag'')
       = py ''https://soundcloud.com/user/playlist''"
    by (simp add: sanitize_sc_url_takeWhile py_def)
  from a b c c' d e show ?thesis by blast
qed

lemma strip_Nil [simp]: "strip [] = []"
  by (simp add: strip_def)

lemma blank_Nil [simp]: "blank []"
  by (simp add: blank_def)

lemma strip_Nil_iff: "strip s = [] \<longleftrightarrow> blank s"
proof (cases "dropWhile isspace s")
  case Nil
  have "strip s = []"
    by (simp add: strip_def Nil)
  moreover have "blank s"
    using Nil by (simp add: dropWhile_eq_Nil_conv blank_def list_all_iff)
  ultimately show ?thesis by simp
next
  case (Cons x xs)
  then have nx: "\<not> isspace x"
    by (metis hd_dropWhile list.sel(1) list.distinct(1))
  have "x \<in> set (dropWhile isspace s)"
    by (simp add: Cons)
  then have "x \<in> set s"
    by (rule set_dropWhileD)
  with nx have "\<not> blank s"
    by (auto simp: blank_def list_all_iff)
  moreover have "strip s \<noteq> []"
    using nx by (auto simp: strip_def Cons dropWhile_eq_Nil_conv)
  ultimately show ?thesis by simp
qed

lemma strip_not_blank: "strip s \<noteq> [] \<Longrightarrow> \<not> blank (strip s)"
proof -
  assume "strip s \<noteq> []"
  then have ne: "dropWhile isspace (rev (dropWhile isspace s)) \<noteq> []"
    by (simp add: strip_def)
  then have "\<not> isspace (hd (dropWhile isspace (rev (dropWhile isspace s))))"
    by (rule hd_dropWhile)
  moreover have "hd (dropWhile isspace (rev (dropWhile isspace s))) \<in> set (strip s)"
    using ne by (simp add: strip_def)
  ultimately show ?thesis
    by (auto simp: blank_def list_all_iff)
qed

lemma blank_append: "blank (a @ b) \<longleftrightarrow> blank a \<and> blank b"
  by (simp add: blank_def)

lemma py_inj: "py a = py b \<longleftrightarrow> a = b"
  by (simp add: py_def inj_map_eq_map inj_of_char)

lemma py_append: "py a @ py b = py (a @ b)"
  by (simp add: py_def)

lemma py_Nil_iff: "py a = [] \<longleftrightarrow> a = []"
  by (simp add: py_def)

lemma extract_loop_entry_of:
  "extract_loop (entry_of r # rest) acc =
     extract_loop rest (if has_title r then acc @ [query_of r] else acc)"
  by (cases "title r"; cases "uploader r")
     (auto simp add: entry_of_def has_title_def query_of_def trimmed_def py_or_def py_inj
        strip_Nil_iff [symmetric])

lemma extract_loop_records:
  "extract_loop (map entry_of rs) acc = Inr (acc @ map query_of (filter has_title rs))"
  by (induction rs arbitrary: acc) (simp_all add: extract_loop_entry_of del: extract_loop.simps(2))

lemma extract_playlist_of:
  "extract_sc_queries_from_ydl_json (playlist_of rs) = Inr (map query_of (filter has_title rs))"
  by (simp add: extract_sc_queries_from_ydl_json_def playlist_of_def py_or_def extract_loop_records)

section \<open>Query extraction: the claims\<close>

text \<open>
  C4. For every list of track records, query extraction skips exactly the records whose
  title is absent, empty or white space only, and keeps the others in the order of the
  input. A kept record gives \<open>uploader - title\<close> when its uploader is non-empty and
  \<open>title\<close> otherwise, where title and uploader are the trimmed fields, the values the
  variables of the source hold. The playlist of the specification, with the records
  (Foo, Bar) and (Baz), gives \<open>Bar - Foo\<close> and \<open>Baz\<close>.
\<close>

theorem extract_queries_of_track_records:
  "extract_sc_queries_from_ydl_json (playlist_of rs) = Inr (map query_of (filter has_title rs))
   \<and> extract_sc_queries_from_ydl_json
       (PDict [(py ''entries'',
                PList [PDict [(py ''title'', PStr (py ''Foo'')), (py ''uploader'', PStr (py ''Bar''))],
                       PDict [(py ''title'', PStr (py ''Baz''))]])])
     = Inr [py ''Bar - Foo'', py ''Baz'']"
proof -
  have "extract_sc_queries_from_ydl_json
       (PDict [(py ''entries'',
                PList [PDict [(py ''title'', PStr (py ''Foo'')), (py ''uploader'', PStr (py ''Bar''))],
                       PDict [(py ''title'', PStr (py ''Baz''))]])])
     = Inr [py ''Bar - Foo'', py ''Baz'']"
    by (simp add: extract_sc_queries_from_ydl_json_def py_or_def py_inj strip_def isspace_def
        py_def)
  then show ?thesis
    by (simp only: extract_playlist_of simp_thms)
qed

text \<open>
  C10. A record whose title is non-empty after trimming and whose uploader is present but
  white space only gives just the trimmed title, wherever it stands in the playlist; its
  uploader counts as absent, so no query \<open> - title\<close> is emitted for it.
\<close>

theorem blank_uploader_gives_trimmed_title:
  assumes "\<not> blank t" and "blank u"
  shows "extract_sc_queries_from_ydl_json
           (playlist_of (before @ [\<lparr>title = Some t, uploader = Some u\<rparr>] @ after))
         = Inr (map query_of (filter has_title before) @ [strip t] @
                map query_of (filter has_title after))"
proof -
  let ?r = "\<lparr>title = Some t, uploader = Some u\<rparr>"
  have "has_title ?r"
    using assms(1) by (simp add: has_title_def)
  moreover have "strip u = []"
    using assms(2) by (simp add: strip_Nil_iff)
  then have "query_of ?r = strip t"
    by (simp add: query_of_def trimmed_def)
  ultimately show ?thesis
    by (simp add: extract_playlist_of)
qed

theorem blank_uploader_gives_trimmed_title_witness:
  "\<not> blank (py '' Foo '') \<and> blank (py ''  '') \<and>
   extract_sc_queries_from_ydl_json
     (PDict [(py ''entries'',
              PList [PDict [(py ''title'', PStr (py '' Foo '')), (py ''uploader'', PStr (py ''  ''))]])])
   = Inr [py ''Foo'']"
proof -
  have a: "\<not> blank (py '' Foo '')"
    by (simp add: blank_def py_def isspace_def)
  have b: "blank (py ''  '')"
    by (simp add: blank_def py_def isspace_def)
  have c: "strip (py '' Foo '') = py ''Foo''"
    by (simp add: strip_def py_def isspace_def)
  from blank_uploader_gives_trimmed_title [OF a b, of "[]" "[]"] a b c show ?thesis
    by (simp add: playlist_of_def entry_of_def)
qed

section \<open>The command builder: the claim\<close>

text \<open>
  C6, as the specification states it, fails: the builder copies its arguments into the
  command unchanged, so a query that is itself \<open>--user-auth\<close> puts the authentication
  flag into a command built without authentication, and such a bitrate puts it last.
\<close>

theorem build_spotdl_cmd_auth_flag_counterexample:
  "py ''--user-auth'' \<in>
     set (build_spotdl_cmd (py ''python'') (py ''--user-auth'') (py ''/tmp'') (py ''128k'') False)
   \<and> last (build_spotdl_cmd (py ''python'') (py ''X'') (py ''/tmp'') (py ''--user-auth'') False)
       = py ''--user-auth''"
  by (simp add: build_spotdl_cmd_def)

text \<open>
  C6, amended. The command is the fixed list of eleven arguments, with the format and
  bitrate flags under their fixed names and the format \<open>m4a\<close>, followed by \<open>--user-auth\<close>
  as one more, last element exactly when the flag is true. With a true flag the last
  element is the authentication flag; with a false flag no element is the authentication
  flag unless the interpreter path, the query, the directory or the bitrate is that very
  string, and the last element is not the flag unless the bitrate is that string.
\<close>

theorem build_spotdl_cmd_shape:
  "build_spotdl_cmd exe query out_dir bitrate auth =
     [exe, py ''-m'', py ''spotdl'', py ''download'', query, py ''--output'', out_dir,
      py ''--format'', py ''m4a'', py ''--bitrate'', bitrate] @
     (if auth then [py ''--user-auth''] else [])
   \<and> (auth \<longrightarrow> last (build_spotdl_cmd exe query out_dir bitrate auth) = py ''--user-auth'')
   \<and> (\<not> auth \<and> bitrate \<noteq> py ''--user-auth'' \<longrightarrow>
        last (build_spotdl_cmd exe query out_dir bitrate auth) \<noteq> py ''--user-auth'')
   \<and> (\<not> auth \<and> py ''--user-auth'' \<notin> {exe, query, out_dir, bitrate} \<longrightarrow>
        py ''--user-auth'' \<notin> set (build_spotdl_cmd exe query out_dir bitrate auth))"
  by (simp add: build_spotdl_cmd_def py_inj)

theorem build_spotdl_cmd_shape_witness:
  "last (build_spotdl_cmd (py ''python'') (py ''X'') (py ''/tmp'') (py ''128k'') True)
     = py ''--user-auth''
   \<and> py ''128k'' \<noteq> py ''--user-auth''
   \<and> py ''--user-auth'' \<notin> {py ''python'', py ''X'', py ''/tmp'', py ''128k''}
   \<and> last (build_spotdl_cmd (py ''python'') (py ''X'') (py ''/tmp'') (py ''128k'') False)
       \<noteq> py ''--user-auth''
   \<and> py ''--user-auth'' \<notin>
       set (build_spotdl_cmd (py ''python'') (py ''X'') (py ''/tmp'') (py ''128k'') False)
   \<and> py ''128k'' \<in>
       set (build_spotdl_cmd (py ''python'') (py ''X'') (py ''/tmp'') (py ''128k'') True)"
proof -
  have a: "py ''128k'' \<noteq> py ''--user-auth''"
    by (simp add: py_inj)
  have b: "py ''--user-auth'' \<notin> {py ''python'', py ''X'', py ''/tmp'', py ''128k''}"
    by (simp add: py_inj)
  have c: "py ''128k'' \<in>
       set (build_spotdl_cmd (py ''python'') (py ''X'') (py ''/tmp'') (py ''128k'') True)"
    by (simp add: build_spotdl_cmd_def)
  from build_spotdl_cmd_shape [of "py ''python''" "py ''X''" "py ''/tmp''" "py ''128k''" True]
    build_spotdl_cmd_shape [of "py ''python''" "py ''X''" "py ''/tmp''" "py ''128k''" False]
    a b c
  show ?thesis by blast
qed

section \<open>Facts about the resolver\<close>

lemma py_strip_Inr: "py_strip v = Inr s \<Longrightarrow> s \<noteq> [] \<Longrightarrow> \<not> blank s"
  by (cases v) (auto simp: strip_not_blank)

lemma extract_loop_not_blank:
  "extract_loop es acc = Inr qs \<Longrightarrow> list_all (\<lambda>q. \<not> blank q) acc \<Longrightarrow> list_all (\<lambda>q. \<not> blank q) qs"
proof (induction es arbitrary: acc)
  case Nil
  then show ?case by simp
next
  case (Cons e es)
  from Cons.prems(1) obtain t ttl u upl where
    t: "py_strip (py_or t (PStr [])) = Inr ttl" and
    u: "py_strip (py_or u (PStr [])) = Inr upl" and
    rest: "(if ttl \<noteq> []
            then extract_loop es (acc @ [if upl \<noteq> [] then upl @ py '' - '' @ ttl else ttl])
            else extract_loop es acc) = Inr qs"
    by (auto split: sum.splits)
  show ?case
  proof (cases "ttl = []")
    case True
    with rest Cons.IH Cons.prems(2) show ?thesis by simp
  next
    case False
    then have nb: "\<not> blank ttl" using t by (auto dest: py_strip_Inr)
    then have "\<not> blank (if upl \<noteq> [] then upl @ py '' - '' @ ttl else ttl)"
      by (simp add: blank_append)
    with Cons.prems(2)
    have "list_all (\<lambda>q. \<not> blank q) (acc @ [if upl \<noteq> [] then upl @ py '' - '' @ ttl else ttl])"
      by simp
    with rest False Cons.IH show ?thesis by simp
  qed
qed

lemma extract_not_blank:
  "extract_sc_queries_from_ydl_json data = Inr qs \<Longrightarrow> list_all (\<lambda>q. \<not> blank q) qs"
  by (auto simp: extract_sc_queries_from_ydl_json_def split: sum.splits
      dest: extract_loop_not_blank)

lemma python_api_not_blank:
  "python_api env u flat = Inr qs \<Longrightarrow> list_all (\<lambda>q. \<not> blank q) qs"
  by (auto simp: python_api_def split: sum.splits dest: extract_not_blank)

lemma extract_with_ydl_not_blank:
  "extract_with_ydl env u cmd flat = Inr qs \<Longrightarrow> list_all (\<lambda>q. \<not> blank q) qs"
  by (auto simp: extract_with_ydl_def split: sum.splits if_splits dest: extract_not_blank)

text \<open>What a tier that returns has returned.\<close>

lemma run_tier_Return:
  "run_tier attempt call_of em ep errors tr = (Return q, tr') \<Longrightarrow>
     q \<noteq> [] \<and> (attempt True = Inr q \<and> tr' = tr @ [call_of True]
       \<or> attempt True = Inr [] \<and> attempt False = Inr q \<and> tr' = tr @ [call_of True, call_of False])"
  by (auto simp: run_tier_def split: sum.splits if_splits)

lemma tier3_Return:
  "tier3 env u errors tr = (Return q, tr') \<Longrightarrow>
     \<exists>p. q \<noteq> [] \<and> (extract_with_ydl env u [p] True = Inr q \<or> extract_with_ydl env u [p] False = Inr q)"
  by (auto simp: tier3_def split: prod.splits option.splits if_splits dest!: run_tier_Return)

lemma run_tier_flat_raises:
  "attempt True = Inl exc \<Longrightarrow>
     run_tier attempt call_of em ep errors tr =
       (Continue (errors @ [ep @ str_of_exn exc]), tr @ [call_of True])"
  by (simp add: run_tier_def)

lemma run_tier_flat_empty:
  "attempt True = Inr [] \<Longrightarrow>
     snd (run_tier attempt call_of em ep errors tr) = tr @ [call_of True, call_of False]"
  by (simp add: run_tier_def split: sum.splits)

lemma run_tier_full_result:
  "attempt True = Inr [] \<Longrightarrow> attempt False = Inr q \<Longrightarrow> q \<noteq> [] \<Longrightarrow>
     run_tier attempt call_of em ep errors tr = (Return q, tr @ [call_of True, call_of False])"
  by (simp add: run_tier_def)

lemma run_tier_both_empty:
  "attempt True = Inr [] \<Longrightarrow> attempt False = Inr [] \<Longrightarrow>
     run_tier attempt call_of em ep errors tr =
       (Continue (errors @ [em]), tr @ [call_of True, call_of False])"
  by (simp add: run_tier_def)

lemma run_tier_trace:
  "run_tier attempt call_of em ep errors tr = (r, tr') \<Longrightarrow>
     tr' = tr @ [call_of True] \<or> tr' = tr @ [call_of True, call_of False]"
  by (auto simp: run_tier_def split: sum.splits if_splits)

lemma tier_of_python_api_call [simp]: "tier_of (python_api_call u flat) = 1"
  by (simp add: python_api_call_def)

lemma tier_of_module_call [simp]:
  "tier_of (extract_with_ydl_call u [exe, py ''-m'', py ''yt_dlp''] flat) = 2"
  by (simp add: extract_with_ydl_call_def ydl_cmdline_def)

lemma resolver_Inr:
  "get_soundcloud_queries env url = (Inr q, tr) \<Longrightarrow>
     q \<noteq> [] \<and> (\<exists>flat. python_api env (sanitize_sc_url (strip url)) flat = Inr q
        \<or> (\<exists>cmd. extract_with_ydl env (sanitize_sc_url (strip url)) cmd flat = Inr q))"
  by (auto simp: get_soundcloud_queries_def Let_def tier1_def tier2_def
       split: if_splits prod.splits tier_result.splits dest!: run_tier_Return tier3_Return)

lemma resolver_never_empty: "fst (get_soundcloud_queries env url) \<noteq> Inr []"
proof
  assume "fst (get_soundcloud_queries env url) = Inr []"
  then have "get_soundcloud_queries env url = (Inr [], snd (get_soundcloud_queries env url))"
    by (metis prod.collapse)
  then show False by (auto dest: resolver_Inr)
qed

lemma startswith_append: "startswith s (a @ b) \<Longrightarrow> startswith s a"
proof -
  assume "startswith s (a @ b)"
  then have e: "take (length (a @ b)) s = a @ b"
    by (simp add: startswith_def)
  have "take (length a) s = take (length a) (take (length (a @ b)) s)"
    by (simp add: min_def)
  also have "\<dots> = a"
    by (simp only: e) simp
  finally show ?thesis
    by (simp add: startswith_def)
qed

lemma startswith_http:
  assumes "startswith s (py ''http://'') \<or> startswith s (py ''https://'')"
  shows "startswith s (py ''http'')"
proof -
  have a: "py ''http://'' = py ''http'' @ py ''://''" "py ''https://'' = py ''http'' @ py ''s://''"
    by (simp_all add: py_append)
  from assms show ?thesis
    unfolding a by (auto dest: startswith_append)
qed

lemma tier1_first_call:
  "tier1 env u errors [] = (r, t) \<Longrightarrow> \<exists>rest. t = python_api_call u True # rest"
  by (auto simp: tier1_def dest!: run_tier_trace)

lemma tier2_extends: "tier2 env u errors t = (r, t') \<Longrightarrow> \<exists>new. t' = t @ new"
  by (auto simp: tier2_def dest!: run_tier_trace)

lemma tier3_extends: "tier3 env u errors t = (r, t') \<Longrightarrow> \<exists>new. t' = t @ new"
  by (auto simp: tier3_def split: prod.splits option.splits if_splits dest!: run_tier_trace)

lemma resolver_valid_trace:
  assumes "startswith (sanitize_sc_url (strip url)) (py ''http'')"
  shows "\<exists>rest. snd (get_soundcloud_queries env url) =
           python_api_call (sanitize_sc_url (strip url)) True # rest"
  using assms
  by (auto simp: get_soundcloud_queries_def Let_def split: prod.splits tier_result.splits
      dest!: tier1_first_call tier2_extends tier3_extends)

lemma resolver_error_class:
  "fst (get_soundcloud_queries env url) = Inl e \<Longrightarrow>
     exn_class_of e =
       (if startswith (sanitize_sc_url (strip url)) (py ''http'') then RuntimeError else ValueError)"
  by (auto simp: get_soundcloud_queries_def Let_def split: prod.splits tier_result.splits if_splits)

lemma run_tier_finds_nothing:
  "finds_nothing attempt \<Longrightarrow>
     run_tier attempt call_of em ep errors tr =
       (Continue (errors @ [failure_reason attempt em ep]), tr @ attempt_calls attempt call_of)"
  by (auto simp: run_tier_def finds_nothing_def failure_reason_def attempt_calls_def
      split: sum.splits)

lemma run_tier_flat_result:
  "attempt True = Inr q \<Longrightarrow> q \<noteq> [] \<Longrightarrow>
     run_tier attempt call_of em ep errors tr = (Return q, tr @ [call_of True])"
  by (simp add: run_tier_def)

lemma attempt_calls_cases:
  "attempt_calls attempt call_of = [call_of True] \<or>
   attempt_calls attempt call_of = [call_of True, call_of False]"
  by (simp add: attempt_calls_def split: sum.splits)

lemma tier_of_api_calls_2:
  "list_all (\<lambda>c. tier_of c \<le> 2) (attempt_calls attempt (python_api_call u))"
  using attempt_calls_cases [of attempt "python_api_call u"] by auto

lemma finds_nothing_raises: "attempt True = Inl exc \<Longrightarrow> finds_nothing attempt"
  by (simp add: finds_nothing_def)

lemma finds_nothing_empty:
  "attempt True = Inr [] \<Longrightarrow> attempt False = Inr [] \<Longrightarrow> finds_nothing attempt"
  by (simp add: finds_nothing_def)

lemma resolver_after_tier1:
  assumes "sanitize_sc_url (strip url) = u" and "startswith u (py ''http'')"
    and a: "tier1 env u [] [] = (Continue e1, t1)"
  shows "\<exists>rest. snd (get_soundcloud_queries env url) =
           t1 @ extract_with_ydl_call u [sys_executable env, py ''-m'', py ''yt_dlp''] True # rest"
proof -
  obtain r2 t2 where t2: "tier2 env u e1 t1 = (r2, t2)"
    by (cases "tier2 env u e1 t1")
  from t2 obtain new where n: "t2 = t1 @ extract_with_ydl_call u [sys_executable env, py ''-m'', py ''yt_dlp''] True # new"
    by (auto simp: tier2_def dest!: run_tier_trace)
  obtain r3 t3 where t3: "tier3 env u (case r2 of Continue e \<Rightarrow> e | Return q \<Rightarrow> []) t2 = (r3, t3)"
    by (cases "tier3 env u (case r2 of Continue e \<Rightarrow> e | Return q \<Rightarrow> []) t2")
  from tier3_extends [OF t3] obtain new3 where n3: "t3 = t2 @ new3" by blast
  show ?thesis
    using assms(1,2) a t2 t3 n n3
    by (cases r2; cases r3) (simp_all add: get_soundcloud_queries_def)
qed

lemma resolver_after_tier2:
  assumes "sanitize_sc_url (strip url) = u" and "startswith u (py ''http'')"
    and a: "tier1 env u [] [] = (Continue e1, t1)" "tier2 env u e1 t1 = (Continue e2, t2)"
  shows "\<exists>rest. snd (get_soundcloud_queries env url) = t2 @ Which (py ''yt-dlp'') # rest"
proof -
  obtain r3 t3 where t3: "tier3 env u e2 t2 = (r3, t3)"
    by (cases "tier3 env u e2 t2")
  then obtain new where n: "t3 = t2 @ Which (py ''yt-dlp'') # new"
    by (auto simp: tier3_def locate_exe_def split: prod.splits option.splits if_splits
        dest!: run_tier_trace)
  show ?thesis
    using assms(1,2) a t3 n
    by (cases r3) (simp_all add: get_soundcloud_queries_def)
qed

section \<open>The resolver on the sample environments\<close>

lemma ydl_opts_eq: "ydl_opts a = ydl_opts b \<longleftrightarrow> a = b"
  by (cases a; cases b) (simp_all add: ydl_opts_def)

lemma sanitize_sample: "sanitize_sc_url (strip sample_url) = sample_url"
  by (simp add: sample_url_def sanitize_sc_url_takeWhile strip_def py_def isspace_def)

lemma starts_sample: "startswith sample_url (py ''http'')"
  by (simp add: sample_url_def startswith_def py_def)

lemma extract_empty: "extract_sc_queries_from_ydl_json empty_ydl_json = Inr []"
  by (simp add: extract_sc_queries_from_ydl_json_def empty_ydl_json_def py_or_def)

lemma extract_sample: "extract_sc_queries_from_ydl_json sample_ydl_json = Inr [py ''Bar - Foo'', py ''Baz'']"
  by (simp add: extract_sc_queries_from_ydl_json_def sample_ydl_json_def py_or_def py_inj strip_def isspace_def
        py_def)

lemma resolve_full_only: "get_soundcloud_queries env_full_only sample_url =
   (Inr [py ''Bar - Foo'', py ''Baz''], [python_api_call sample_url True, python_api_call sample_url False])"
  by (simp add: get_soundcloud_queries_def Let_def sanitize_sample starts_sample tier1_def run_tier_def
      python_api_def env_full_only_def ydl_opts_eq extract_empty extract_sample)

lemma resolve_all_empty: "get_soundcloud_queries env_all_empty sample_url =
   (Inl (Exn RuntimeError (py ''yt-dlp could not extract the SoundCloud set.Python API returned no entries even after full extraction.python -m yt_dlp returned no entries even after full extraction.yt-dlp executable returned no entries even after full extraction'')),
    [python_api_call sample_url True, python_api_call sample_url False,
     extract_with_ydl_call sample_url [py ''/usr/bin/python3'', py ''-m'', py ''yt_dlp''] True,
     extract_with_ydl_call sample_url [py ''/usr/bin/python3'', py ''-m'', py ''yt_dlp''] False,
     Which (py ''yt-dlp''),
     extract_with_ydl_call sample_url [py ''/usr/bin/yt-dlp''] True,
     extract_with_ydl_call sample_url [py ''/usr/bin/yt-dlp''] False])"
  by (simp add: get_soundcloud_queries_def Let_def sanitize_sample starts_sample tier1_def tier2_def tier3_def
      run_tier_def locate_exe_def which_usr_bin_def extraction_failed_summary_def
      python_api_def extract_with_ydl_def env_all_empty_def extract_empty py_append py_Nil_iff)

lemma strip_boom: "strip (py ''ERROR: boom '') = py ''ERROR: boom''"
  by (simp add: strip_def isspace_def py_def)

lemma api_raise: "python_api env_all_raise u flat = Inl (Exn (OtherException (py ''DownloadError'')) (py ''ERROR: boom''))"
  by (simp add: python_api_def env_all_raise_def)

lemma ydl_raise: "extract_with_ydl env_all_raise u cmd flat = Inl (Exn RuntimeError (py ''ERROR: boom''))"
  by (simp add: extract_with_ydl_def env_all_raise_def strip_boom py_Nil_iff)

lemma locate_usr_bin: "which env = which_usr_bin \<Longrightarrow> locate_exe env = (Some (py ''/usr/bin/yt-dlp''), [Which (py ''yt-dlp'')])"
  by (simp add: locate_exe_def which_usr_bin_def py_Nil_iff)

lemma resolve_all_raise: "get_soundcloud_queries env_all_raise sample_url =
   (Inl (Exn RuntimeError (py ''yt-dlp could not extract the SoundCloud set.Python API error: ERROR: boom.python -m yt_dlp error: ERROR: boom.Executable error: ERROR: boom'')),
    [python_api_call sample_url True,
     extract_with_ydl_call sample_url [py ''/usr/bin/python3'', py ''-m'', py ''yt_dlp''] True,
     Which (py ''yt-dlp''),
     extract_with_ydl_call sample_url [py ''/usr/bin/yt-dlp''] True])"
proof -
  have w: "which env_all_raise = which_usr_bin" "sys_executable env_all_raise = py ''/usr/bin/python3''"
    by (simp_all add: env_all_raise_def)
  show ?thesis
    by (simp add: get_soundcloud_queries_def Let_def sanitize_sample starts_sample tier1_def tier2_def
        tier3_def run_tier_def locate_usr_bin [OF w(1)] w(2) api_raise ydl_raise
        extraction_failed_summary_def py_append py_Nil_iff)
qed

lemma sanitize_httpfoo: "sanitize_sc_url (strip (py ''httpfoo'')) = py ''httpfoo''"
  by (simp add: sanitize_sc_url_takeWhile strip_def py_def isspace_def)

lemma resolve_httpfoo: "get_soundcloud_queries env_all_raise (py ''httpfoo'') =
   (Inl (Exn RuntimeError (py ''yt-dlp could not extract the SoundCloud set.Python API error: ERROR: boom.python -m yt_dlp error: ERROR: boom.Executable error: ERROR: boom'')),
    [python_api_call (py ''httpfoo'') True,
     extract_with_ydl_call (py ''httpfoo'') [py ''/usr/bin/python3'', py ''-m'', py ''yt_dlp''] True,
     Which (py ''yt-dlp''),
     extract_with_ydl_call (py ''httpfoo'') [py ''/usr/bin/yt-dlp''] True])"
proof -
  have w: "which env_all_raise = which_usr_bin" "sys_executable env_all_raise = py ''/usr/bin/python3''"
    by (simp_all add: env_all_raise_def)
  have st: "startswith (py ''httpfoo'') (py ''http'')"
    by (simp add: startswith_def py_def)
  show ?thesis
    by (simp add: get_soundcloud_queries_def Let_def sanitize_httpfoo st tier1_def tier2_def
        tier3_def run_tier_def locate_usr_bin [OF w(1)] w(2) api_raise ydl_raise
        extraction_failed_summary_def py_append py_Nil_iff)
qed

lemma api_full_only_flat: "python_api env_full_only u True = Inr []"
  by (simp add: python_api_def env_full_only_def extract_empty)

lemma api_full_only_full: "python_api env_full_only u False = Inr [py ''Bar - Foo'', py ''Baz'']"
  by (simp add: python_api_def env_full_only_def ydl_opts_eq extract_sample)

lemma api_module_works:
  "python_api env_module_works u flat =
     Inl (Exn (OtherException (py ''ModuleNotFoundError'')) (py ''No module named yt_dlp''))"
  by (simp add: python_api_def env_module_works_def)

lemma ydl_module_works:
  "extract_with_ydl env_module_works u cmd flat = Inr [py ''Bar - Foo'', py ''Baz'']"
  by (simp add: extract_with_ydl_def env_module_works_def extract_sample)

lemma api_all_empty: "python_api env_all_empty u flat = Inr []"
  by (simp add: python_api_def env_all_empty_def extract_empty)

lemma ydl_all_empty: "extract_with_ydl env_all_empty u cmd flat = Inr []"
  by (simp add: extract_with_ydl_def env_all_empty_def extract_empty)

lemma sanitize_test_url:
  "sanitize_sc_url (strip (py ''m_source=clipboard&utm_medium=text'')) =
     py ''m_source=clipboard&utm_medium=text''"
  by (simp add: sanitize_sc_url_takeWhile strip_def py_def isspace_def)

lemma locate_all_raise: "locate_exe env_all_raise = (Some (py ''/usr/bin/yt-dlp''), [Which (py ''yt-dlp'')])"
  by (rule locate_usr_bin) (simp add: env_all_raise_def)

lemma locate_all_empty: "locate_exe env_all_empty = (Some (py ''/usr/bin/yt-dlp''), [Which (py ''yt-dlp'')])"
  by (rule locate_usr_bin) (simp add: env_all_empty_def)

lemma sys_executable_all_raise: "sys_executable env_all_raise = py ''/usr/bin/python3''"
  by (simp add: env_all_raise_def)

lemma sys_executable_all_empty: "sys_executable env_all_empty = py ''/usr/bin/python3''"
  by (simp add: env_all_empty_def)

lemma api_flat_works: "python_api env_flat_works u flat = Inr [py ''Bar - Foo'', py ''Baz'']"
  by (simp add: python_api_def env_flat_works_def extract_sample)

lemma api_no_module:
  "extract_info env = (\<lambda>opts u. Inl (Exn (OtherException (py ''ModuleNotFoundError''))
                                        (py ''No module named yt_dlp''))) \<Longrightarrow>
   python_api env u flat =
     Inl (Exn (OtherException (py ''ModuleNotFoundError'')) (py ''No module named yt_dlp''))"
  by (simp add: python_api_def)

lemma api_module_full_only:
  "python_api env_module_full_only u flat =
     Inl (Exn (OtherException (py ''ModuleNotFoundError'')) (py ''No module named yt_dlp''))"
  by (rule api_no_module) (simp add: env_module_full_only_def)

lemma api_exe_works:
  "python_api env_exe_works u flat =
     Inl (Exn (OtherException (py ''ModuleNotFoundError'')) (py ''No module named yt_dlp''))"
  by (rule api_no_module) (simp add: env_exe_works_def)

lemma api_exe_full_only:
  "python_api env_exe_full_only u flat =
     Inl (Exn (OtherException (py ''ModuleNotFoundError'')) (py ''No module named yt_dlp''))"
  by (rule api_no_module) (simp add: env_exe_full_only_def)

lemma api_nothing_installed:
  "python_api env_nothing_installed u flat =
     Inl (Exn (OtherException (py ''ModuleNotFoundError'')) (py ''No module named yt_dlp''))"
  by (rule api_no_module) (simp add: env_nothing_installed_def)

lemma loads_none: "loads_none_or_tracks (py ''none'') = Inr empty_ydl_json"
  by (simp add: loads_none_or_tracks_def)

lemma loads_tracks: "loads_none_or_tracks (py ''tracks'') = Inr sample_ydl_json"
  by (simp add: loads_none_or_tracks_def py_inj)

lemma flat_cmdline: "py ''--flat-playlist'' \<in> set (ydl_cmdline cmd u True)"
  by (simp add: ydl_cmdline_def)

lemma full_cmdline_module:
  "py ''--flat-playlist'' \<notin> set (ydl_cmdline [py ''/usr/bin/python3'', py ''-m'', py ''yt_dlp''] sample_url False)"
  by (simp add: ydl_cmdline_def py_inj sample_url_def)

lemma full_cmdline_exe:
  "py ''--flat-playlist'' \<notin> set (ydl_cmdline [py ''/usr/bin/yt-dlp''] sample_url False)"
  by (simp add: ydl_cmdline_def py_inj sample_url_def)

lemma sys_executable_samples:
  "sys_executable env_module_works = py ''/usr/bin/python3''"
  "sys_executable env_module_full_only = py ''/usr/bin/python3''"
  "sys_executable env_exe_works = py ''/usr/bin/python3''"
  "sys_executable env_exe_full_only = py ''/usr/bin/python3''"
  "sys_executable env_nothing_installed = py ''/usr/bin/python3''"
  by (simp_all add: env_module_works_def env_module_full_only_def env_exe_works_def
      env_exe_full_only_def env_nothing_installed_def)

lemma ydl_module_full_only_flat:
  "extract_with_ydl env_module_full_only u cmd True = Inr []"
  by (simp add: extract_with_ydl_def env_module_full_only_def full_only_output_def flat_cmdline
      loads_none extract_empty)

lemma ydl_module_full_only_full:
  "extract_with_ydl env_module_full_only sample_url
     [py ''/usr/bin/python3'', py ''-m'', py ''yt_dlp''] False = Inr [py ''Bar - Foo'', py ''Baz'']"
  by (simp add: extract_with_ydl_def env_module_full_only_def full_only_output_def
      full_cmdline_module loads_tracks extract_sample)

lemma strip_no_module: "strip (py ''No module named yt_dlp'') = py ''No module named yt_dlp''"
  by (simp add: strip_def isspace_def py_def)

lemma ydl_no_module:
  "subprocess_run env (ydl_cmdline cmd u flat) = Inr no_module_output \<Longrightarrow>
   extract_with_ydl env u cmd flat = Inl (Exn RuntimeError (py ''No module named yt_dlp''))"
  by (simp add: extract_with_ydl_def no_module_output_def strip_no_module py_Nil_iff)

lemma ydl_exe_works_module:
  "extract_with_ydl env_exe_works u [py ''/usr/bin/python3'', py ''-m'', py ''yt_dlp''] flat =
     Inl (Exn RuntimeError (py ''No module named yt_dlp''))"
  by (rule ydl_no_module) (simp add: env_exe_works_def ydl_cmdline_def py_inj)

lemma ydl_exe_full_only_module:
  "extract_with_ydl env_exe_full_only u [py ''/usr/bin/python3'', py ''-m'', py ''yt_dlp''] flat =
     Inl (Exn RuntimeError (py ''No module named yt_dlp''))"
  by (rule ydl_no_module) (simp add: env_exe_full_only_def ydl_cmdline_def py_inj)

lemma ydl_nothing_installed:
  "extract_with_ydl env_nothing_installed u cmd flat =
     Inl (Exn RuntimeError (py ''No module named yt_dlp''))"
  by (rule ydl_no_module) (simp add: env_nothing_installed_def)

lemma ydl_exe_works:
  "extract_with_ydl env_exe_works u [py ''/usr/bin/yt-dlp''] flat = Inr [py ''Bar - Foo'', py ''Baz'']"
  by (simp add: extract_with_ydl_def env_exe_works_def ydl_cmdline_def loads_tracks extract_sample)

lemma ydl_exe_full_only_flat:
  "extract_with_ydl env_exe_full_only u [py ''/usr/bin/yt-dlp''] True = Inr []"
  by (simp add: extract_with_ydl_def env_exe_full_only_def full_only_output_def flat_cmdline
      loads_none extract_empty) (simp add: ydl_cmdline_def)

lemma ydl_exe_full_only_full:
  "extract_with_ydl env_exe_full_only sample_url [py ''/usr/bin/yt-dlp''] False =
     Inr [py ''Bar - Foo'', py ''Baz'']"
  by (simp add: extract_with_ydl_def env_exe_full_only_def full_only_output_def
      full_cmdline_exe loads_tracks extract_sample) (simp add: ydl_cmdline_def)

lemma locate_samples:
  "locate_exe env_module_works = (Some (py ''/usr/bin/yt-dlp''), [Which (py ''yt-dlp'')])"
  "locate_exe env_exe_works = (Some (py ''/usr/bin/yt-dlp''), [Which (py ''yt-dlp'')])"
  "locate_exe env_exe_full_only = (Some (py ''/usr/bin/yt-dlp''), [Which (py ''yt-dlp'')])"
  by (rule locate_usr_bin, simp add: env_module_works_def,
      rule locate_usr_bin, simp add: env_exe_works_def,
      rule locate_usr_bin, simp add: env_exe_full_only_def)

lemma locate_nothing_installed:
  "locate_exe env_nothing_installed = (None, [Which (py ''yt-dlp''), Which (py ''yt-dlp.exe'')])"
  by (simp add: locate_exe_def env_nothing_installed_def)

section \<open>The resolver: the claims\<close>

text \<open>
  C2. Let the URL pass the check. If the flat attempt of tier 1 yields no track and its
  full attempt yields the non-empty list \<open>q\<close>, the resolver returns \<open>q\<close> and its trace
  holds these two calls only: tier 2 and tier 3 are not attempted. In general the first
  tier to yield a non-empty list wins. When the tiers before it found nothing and its flat
  attempt, or its full attempt after an empty flat one, yields a non-empty list, the
  resolver returns that list; the trace holds the calls of the earlier tiers and ends
  with the call that yielded the list, so no call of a later tier is made.
\<close>

theorem first_yielding_tier_wins:
  assumes "sanitize_sc_url (strip url) = u" and "startswith u (py ''http'')"
  shows
    "(python_api env u True = Inr q \<and> q \<noteq> [] \<longrightarrow>
        get_soundcloud_queries env url = (Inr q, [python_api_call u True]))
     \<and> (python_api env u True = Inr [] \<and> python_api env u False = Inr q \<and> q \<noteq> [] \<longrightarrow>
        get_soundcloud_queries env url =
          (Inr q, [python_api_call u True, python_api_call u False]))
     \<and> (finds_nothing (python_api env u) \<and>
        extract_with_ydl env u [sys_executable env, py ''-m'', py ''yt_dlp''] True = Inr q \<and>
        q \<noteq> [] \<longrightarrow>
        get_soundcloud_queries env url =
          (Inr q,
           attempt_calls (python_api env u) (python_api_call u) @
           [extract_with_ydl_call u [sys_executable env, py ''-m'', py ''yt_dlp''] True]) \<and>
        list_all (\<lambda>c. tier_of c \<le> 2) (snd (get_soundcloud_queries env url)))
     \<and> (finds_nothing (python_api env u) \<and>
        extract_with_ydl env u [sys_executable env, py ''-m'', py ''yt_dlp''] True = Inr [] \<and>
        extract_with_ydl env u [sys_executable env, py ''-m'', py ''yt_dlp''] False = Inr q \<and>
        q \<noteq> [] \<longrightarrow>
        get_soundcloud_queries env url =
          (Inr q,
           attempt_calls (python_api env u) (python_api_call u) @
           [extract_with_ydl_call u [sys_executable env, py ''-m'', py ''yt_dlp''] True,
            extract_with_ydl_call u [sys_executable env, py ''-m'', py ''yt_dlp''] False]) \<and>
        list_all (\<lambda>c. tier_of c \<le> 2) (snd (get_soundcloud_queries env url)))
     \<and> (finds_nothing (python_api env u) \<and>
        finds_nothing (extract_with_ydl env u [sys_executable env, py ''-m'', py ''yt_dlp'']) \<and>
        locate_exe env = (Some p, calls) \<and> p \<noteq> [] \<and>
        extract_with_ydl env u [p] True = Inr q \<and> q \<noteq> [] \<longrightarrow>
        get_soundcloud_queries env url =
          (Inr q,
           attempt_calls (python_api env u) (python_api_call u) @
           attempt_calls (extract_with_ydl env u [sys_executable env, py ''-m'', py ''yt_dlp''])
             (extract_with_ydl_call u [sys_executable env, py ''-m'', py ''yt_dlp'']) @
           calls @ [extract_with_ydl_call u [p] True]))
     \<and> (finds_nothing (python_api env u) \<and>
        finds_nothing (extract_with_ydl env u [sys_executable env, py ''-m'', py ''yt_dlp'']) \<and>
        locate_exe env = (Some p, calls) \<and> p \<noteq> [] \<and>
        extract_with_ydl env u [p] True = Inr [] \<and>
        extract_with_ydl env u [p] False = Inr q \<and> q \<noteq> [] \<longrightarrow>
        get_soundcloud_queries env url =
          (Inr q,
           attempt_calls (python_api env u) (python_api_call u) @
           attempt_calls (extract_with_ydl env u [sys_executable env, py ''-m'', py ''yt_dlp''])
             (extract_with_ydl_call u [sys_executable env, py ''-m'', py ''yt_dlp'']) @
           calls @ [extract_with_ydl_call u [p] True, extract_with_ydl_call u [p] False]))"
proof -
  let ?m = "[sys_executable env, py ''-m'', py ''yt_dlp'']"
  have c1: "python_api env u True = Inr q \<and> q \<noteq> [] \<longrightarrow>
        get_soundcloud_queries env url = (Inr q, [python_api_call u True])"
    using assms
    by (simp add: get_soundcloud_queries_def tier1_def run_tier_flat_result)
  have c2: "python_api env u True = Inr [] \<and> python_api env u False = Inr q \<and> q \<noteq> [] \<longrightarrow>
        get_soundcloud_queries env url =
          (Inr q, [python_api_call u True, python_api_call u False])"
    using assms
    by (simp add: get_soundcloud_queries_def tier1_def run_tier_full_result)
  have c3: "finds_nothing (python_api env u) \<and> extract_with_ydl env u ?m True = Inr q \<and>
        q \<noteq> [] \<longrightarrow>
        get_soundcloud_queries env url =
          (Inr q, attempt_calls (python_api env u) (python_api_call u) @
                  [extract_with_ydl_call u ?m True])"
    using assms
    by (simp add: get_soundcloud_queries_def tier1_def tier2_def run_tier_finds_nothing
        run_tier_flat_result)
  have c4: "finds_nothing (python_api env u) \<and> extract_with_ydl env u ?m True = Inr [] \<and>
        extract_with_ydl env u ?m False = Inr q \<and> q \<noteq> [] \<longrightarrow>
        get_soundcloud_queries env url =
          (Inr q, attempt_calls (python_api env u) (python_api_call u) @
                  [extract_with_ydl_call u ?m True, extract_with_ydl_call u ?m False])"
    using assms
    by (simp add: get_soundcloud_queries_def tier1_def tier2_def run_tier_finds_nothing
        run_tier_full_result)
  have c5: "finds_nothing (python_api env u) \<and> finds_nothing (extract_with_ydl env u ?m) \<and>
        locate_exe env = (Some p, calls) \<and> p \<noteq> [] \<and>
        extract_with_ydl env u [p] True = Inr q \<and> q \<noteq> [] \<longrightarrow>
        get_soundcloud_queries env url =
          (Inr q, attempt_calls (python_api env u) (python_api_call u) @
                  attempt_calls (extract_with_ydl env u ?m) (extract_with_ydl_call u ?m) @
                  calls @ [extract_with_ydl_call u [p] True])"
    using assms
    by (simp add: get_soundcloud_queries_def tier1_def tier2_def tier3_def
        run_tier_finds_nothing run_tier_flat_result)
  have c6: "finds_nothing (python_api env u) \<and> finds_nothing (extract_with_ydl env u ?m) \<and>
        locate_exe env = (Some p, calls) \<and> p \<noteq> [] \<and>
        extract_with_ydl env u [p] True = Inr [] \<and>
        extract_with_ydl env u [p] False = Inr q \<and> q \<noteq> [] \<longrightarrow>
        get_soundcloud_queries env url =
          (Inr q, attempt_calls (python_api env u) (python_api_call u) @
                  attempt_calls (extract_with_ydl env u ?m) (extract_with_ydl_call u ?m) @
                  calls @ [extract_with_ydl_call u [p] True, extract_with_ydl_call u [p] False])"
    using assms
    by (simp add: get_soundcloud_queries_def tier1_def tier2_def tier3_def
        run_tier_finds_nothing run_tier_full_result)
  have b3: "list_all (\<lambda>c. tier_of c \<le> 2)
      (attempt_calls (python_api env u) (python_api_call u) @ [extract_with_ydl_call u ?m True])"
    by (simp add: tier_of_api_calls_2)
  have b4: "list_all (\<lambda>c. tier_of c \<le> 2)
      (attempt_calls (python_api env u) (python_api_call u) @
       [extract_with_ydl_call u ?m True, extract_with_ydl_call u ?m False])"
    by (simp add: tier_of_api_calls_2)
  from c3 b3 have c3': "finds_nothing (python_api env u) \<and>
        extract_with_ydl env u ?m True = Inr q \<and> q \<noteq> [] \<longrightarrow>
        get_soundcloud_queries env url =
          (Inr q, attempt_calls (python_api env u) (python_api_call u) @
                  [extract_with_ydl_call u ?m True]) \<and>
        list_all (\<lambda>c. tier_of c \<le> 2) (snd (get_soundcloud_queries env url))"
    by auto
  from c4 b4 have c4': "finds_nothing (python_api env u) \<and>
        extract_with_ydl env u ?m True = Inr [] \<and>
        extract_with_ydl env u ?m False = Inr q \<and> q \<noteq> [] \<longrightarrow>
        get_soundcloud_queries env url =
          (Inr q, attempt_calls (python_api env u) (python_api_call u) @
                  [extract_with_ydl_call u ?m True, extract_with_ydl_call u ?m False]) \<and>
        list_all (\<lambda>c. tier_of c \<le> 2) (snd (get_soundcloud_queries env url))"
    by auto
  from c1 c2 c3' c4' c5 c6 show ?thesis by (intro conjI)
qed

theorem first_yielding_tier_wins_witness:
  "sanitize_sc_url (strip sample_url) = sample_url \<and> startswith sample_url (py ''http'')
   \<and> python_api env_flat_works sample_url True = Inr [py ''Bar - Foo'', py ''Baz'']
   \<and> get_soundcloud_queries env_flat_works sample_url =
       (Inr [py ''Bar - Foo'', py ''Baz''], [python_api_call sample_url True])
   \<and> python_api env_full_only sample_url True = Inr []
   \<and> python_api env_full_only sample_url False = Inr [py ''Bar - Foo'', py ''Baz'']
   \<and> get_soundcloud_queries env_full_only sample_url =
       (Inr [py ''Bar - Foo'', py ''Baz''],
        [python_api_call sample_url True, python_api_call sample_url False])
   \<and> finds_nothing (python_api env_module_works sample_url)
   \<and> extract_with_ydl env_module_works sample_url
        [py ''/usr/bin/python3'', py ''-m'', py ''yt_dlp''] True = Inr [py ''Bar - Foo'', py ''Baz'']
   \<and> get_soundcloud_queries env_module_works sample_url =
       (Inr [py ''Bar - Foo'', py ''Baz''],
        [python_api_call sample_url True,
         extract_with_ydl_call sample_url [py ''/usr/bin/python3'', py ''-m'', py ''yt_dlp''] True])
   \<and> finds_nothing (python_api env_module_full_only sample_url)
   \<and> extract_with_ydl env_module_full_only sample_url
        [py ''/usr/bin/python3'', py ''-m'', py ''yt_dlp''] True = Inr []
   \<and> extract_with_ydl env_module_full_only sample_url
        [py ''/usr/bin/python3'', py ''-m'', py ''yt_dlp''] False = Inr [py ''Bar - Foo'', py ''Baz'']
   \<and> get_soundcloud_queries env_module_full_only sample_url =
       (Inr [py ''Bar - Foo'', py ''Baz''],
        [python_api_call sample_url True,
         extract_with_ydl_call sample_url [py ''/usr/bin/python3'', py ''-m'', py ''yt_dlp''] True,
         extract_with_ydl_call sample_url [py ''/usr/bin/python3'', py ''-m'', py ''yt_dlp''] False])
   \<and> finds_nothing (python_api env_exe_works sample_url)
   \<and> finds_nothing (extract_with_ydl env_exe_works sample_url
        [py ''/usr/bin/python3'', py ''-m'', py ''yt_dlp''])
   \<and> locate_exe env_exe_works = (Some (py ''/usr/bin/yt-dlp''), [Which (py ''yt-dlp'')])
   \<and> py ''/usr/bin/yt-dlp'' \<noteq> []
   \<and> extract_with_ydl env_exe_works sample_url [py ''/usr/bin/yt-dlp''] True =
        Inr [py ''Bar - Foo'', py ''Baz'']
   \<and> get_soundcloud_queries env_exe_works sample_url =
       (Inr [py ''Bar - Foo'', py ''Baz''],
        [python_api_call sample_url True,
         extract_with_ydl_call sample_url [py ''/usr/bin/python3'', py ''-m'', py ''yt_dlp''] True,
         Which (py ''yt-dlp''),
         extract_with_ydl_call sample_url [py ''/usr/bin/yt-dlp''] True])
   \<and> finds_nothing (python_api env_exe_full_only sample_url)
   \<and> finds_nothing (extract_with_ydl env_exe_full_only sample_url
        [py ''/usr/bin/python3'', py ''-m'', py ''yt_dlp''])
   \<and> locate_exe env_exe_full_only = (Some (py ''/usr/bin/yt-dlp''), [Which (py ''yt-dlp'')])
   \<and> extract_with_ydl env_exe_full_only sample_url [py ''/usr/bin/yt-dlp''] True = Inr []
   \<and> extract_with_ydl env_exe_full_only sample_url [py ''/usr/bin/yt-dlp''] False =
        Inr [py ''Bar - Foo'', py ''Baz'']
   \<and> get_soundcloud_queries env_exe_full_only sample_url =
       (Inr [py ''Bar - Foo'', py ''Baz''],
        [python_api_call sample_url True,
         extract_with_ydl_call sample_url [py ''/usr/bin/python3'', py ''-m'', py ''yt_dlp''] True,
         Which (py ''yt-dlp''),
         extract_with_ydl_call sample_url [py ''/usr/bin/yt-dlp''] True,
         extract_with_ydl_call sample_url [py ''/usr/bin/yt-dlp''] False])"
proof -
  note w = first_yielding_tier_wins [OF sanitize_sample starts_sample,
      where q = "[py ''Bar - Foo'', py ''Baz'']" and p = "py ''/usr/bin/yt-dlp''"
        and calls = "[Which (py ''yt-dlp'')]"]
  have ne: "py ''/usr/bin/yt-dlp'' \<noteq> []"
    by (simp add: py_Nil_iff)
  have n1: "finds_nothing (python_api env_module_works sample_url)"
    by (rule finds_nothing_raises) (rule api_module_works)
  have n2: "finds_nothing (python_api env_module_full_only sample_url)"
    by (rule finds_nothing_raises) (rule api_module_full_only)
  have n3: "finds_nothing (python_api env_exe_works sample_url)"
    by (rule finds_nothing_raises) (rule api_exe_works)
  have n4: "finds_nothing (extract_with_ydl env_exe_works sample_url
        [py ''/usr/bin/python3'', py ''-m'', py ''yt_dlp''])"
    by (rule finds_nothing_raises) (rule ydl_exe_works_module)
  have n5: "finds_nothing (python_api env_exe_full_only sample_url)"
    by (rule finds_nothing_raises) (rule api_exe_full_only)
  have n6: "finds_nothing (extract_with_ydl env_exe_full_only sample_url
        [py ''/usr/bin/python3'', py ''-m'', py ''yt_dlp''])"
    by (rule finds_nothing_raises) (rule ydl_exe_full_only_module)
  have a: "get_soundcloud_queries env_flat_works sample_url =
       (Inr [py ''Bar - Foo'', py ''Baz''], [python_api_call sample_url True])"
    using w [where env = env_flat_works] api_flat_works by simp
  have b: "get_soundcloud_queries env_full_only sample_url =
       (Inr [py ''Bar - Foo'', py ''Baz''],
        [python_api_call sample_url True, python_api_call sample_url False])"
    using w [where env = env_full_only] api_full_only_flat api_full_only_full by simp
  have c: "get_soundcloud_queries env_module_works sample_url =
       (Inr [py ''Bar - Foo'', py ''Baz''],
        [python_api_call sample_url True,
         extract_with_ydl_call sample_url [py ''/usr/bin/python3'', py ''-m'', py ''yt_dlp''] True])"
    using w [where env = env_module_works] n1 ydl_module_works
    by (simp add: sys_executable_samples attempt_calls_def api_module_works)
  have d: "get_soundcloud_queries env_module_full_only sample_url =
       (Inr [py ''Bar - Foo'', py ''Baz''],
        [python_api_call sample_url True,
         extract_with_ydl_call sample_url [py ''/usr/bin/python3'', py ''-m'', py ''yt_dlp''] True,
         extract_with_ydl_call sample_url [py ''/usr/bin/python3'', py ''-m'', py ''yt_dlp''] False])"
    using w [where env = env_module_full_only] n2 ydl_module_full_only_flat
      ydl_module_full_only_full
    by (simp add: sys_executable_samples attempt_calls_def api_module_full_only)
  have e: "get_soundcloud_queries env_exe_works sample_url =
       (Inr [py ''Bar - Foo'', py ''Baz''],
        [python_api_call sample_url True,
         extract_with_ydl_call sample_url [py ''/usr/bin/python3'', py ''-m'', py ''yt_dlp''] True,
         Which (py ''yt-dlp''),
         extract_with_ydl_call sample_url [py ''/usr/bin/yt-dlp''] True])"
    using w [where env = env_exe_works] n3 n4 ne locate_samples(2) ydl_exe_works
    by (simp add: sys_executable_samples attempt_calls_def api_exe_works ydl_exe_works_module)
  have f: "get_soundcloud_queries env_exe_full_only sample_url =
       (Inr [py ''Bar - Foo'', py ''Baz''],
        [python_api_call sample_url True,
         extract_with_ydl_call sample_url [py ''/usr/bin/python3'', py ''-m'', py ''yt_dlp''] True,
         Which (py ''yt-dlp''),
         extract_with_ydl_call sample_url [py ''/usr/bin/yt-dlp''] True,
         extract_with_ydl_call sample_url [py ''/usr/bin/yt-dlp''] False])"
    using w [where env = env_exe_full_only] n5 n6 ne locate_samples(3) ydl_exe_full_only_flat
      ydl_exe_full_only_full
    by (simp add: sys_executable_samples attempt_calls_def api_exe_full_only ydl_exe_full_only_module)
  from sanitize_sample starts_sample api_flat_works a api_full_only_flat api_full_only_full b
    n1 ydl_module_works c n2 ydl_module_full_only_flat ydl_module_full_only_full d
    n3 n4 locate_samples(2) ne ydl_exe_works e
    n5 n6 locate_samples(3) ydl_exe_full_only_flat ydl_exe_full_only_full f
  show ?thesis by (intro conjI)
qed

text \<open>
  C9. Whenever the resolver returns a list, the list is not empty and none of its
  elements is empty or white space only.
\<close>

theorem resolver_queries_not_blank:
  assumes "get_soundcloud_queries env url = (Inr qs, tr)"
  shows "qs \<noteq> [] \<and> list_all (\<lambda>q. \<not> blank q) qs"
  using resolver_Inr [OF assms]
  by (auto dest: python_api_not_blank extract_with_ydl_not_blank)

theorem resolver_queries_not_blank_witness:
  "get_soundcloud_queries env_full_only sample_url =
     (Inr [py ''Bar - Foo'', py ''Baz''],
      [python_api_call sample_url True, python_api_call sample_url False])
   \<and> list_all (\<lambda>q. \<not> blank q) [py ''Bar - Foo'', py ''Baz'']"
  using resolver_queries_not_blank [OF resolve_full_only] resolve_full_only by simp

text \<open>
  C7. Let the URL pass the check and let all three tiers be exhausted: the library and
  the interpreter module found nothing, and the executable found nothing or is not on
  the path. Then the resolver raises a \<open>RuntimeError\<close>. Its message is the summary
  \<open>yt-dlp could not extract the SoundCloud set.\<close> followed by the reasons of the three
  tiers in their order, joined by full stops. The resolver never returns an empty list.
\<close>

theorem exhausted_tiers_raise_aggregated_error:
  assumes "sanitize_sc_url (strip url) = u" and "startswith u (py ''http'')"
    and "finds_nothing (python_api env u)"
    and "finds_nothing (extract_with_ydl env u [sys_executable env, py ''-m'', py ''yt_dlp''])"
  shows
    "(locate_exe env = (Some p, calls) \<and> p \<noteq> [] \<and>
      finds_nothing (extract_with_ydl env u [p]) \<longrightarrow>
        get_soundcloud_queries env url =
          (Inl (Exn RuntimeError
             (py ''yt-dlp could not extract the SoundCloud set.'' @
              failure_reason (python_api env u)
                (py ''Python API returned no entries even after full extraction'')
                (py ''Python API error: '') @
              py ''.'' @
              failure_reason (extract_with_ydl env u [sys_executable env, py ''-m'', py ''yt_dlp''])
                (py ''python -m yt_dlp returned no entries even after full extraction'')
                (py ''python -m yt_dlp error: '') @
              py ''.'' @
              failure_reason (extract_with_ydl env u [p])
                (py ''yt-dlp executable returned no entries even after full extraction'')
                (py ''Executable error: ''))),
           attempt_calls (python_api env u) (python_api_call u) @
           attempt_calls (extract_with_ydl env u [sys_executable env, py ''-m'', py ''yt_dlp''])
             (extract_with_ydl_call u [sys_executable env, py ''-m'', py ''yt_dlp'']) @
           calls @
           attempt_calls (extract_with_ydl env u [p]) (extract_with_ydl_call u [p])))
     \<and> (locate_exe env = (exe, calls) \<and> (exe = None \<or> exe = Some []) \<longrightarrow>
        get_soundcloud_queries env url =
          (Inl (Exn RuntimeError
             (py ''yt-dlp could not extract the SoundCloud set.'' @
              failure_reason (python_api env u)
                (py ''Python API returned no entries even after full extraction'')
                (py ''Python API error: '') @
              py ''.'' @
              failure_reason (extract_with_ydl env u [sys_executable env, py ''-m'', py ''yt_dlp''])
                (py ''python -m yt_dlp returned no entries even after full extraction'')
                (py ''python -m yt_dlp error: '') @
              py ''.'' @
              py ''yt-dlp executable not found on PATH'')),
           attempt_calls (python_api env u) (python_api_call u) @
           attempt_calls (extract_with_ydl env u [sys_executable env, py ''-m'', py ''yt_dlp''])
             (extract_with_ydl_call u [sys_executable env, py ''-m'', py ''yt_dlp'']) @
           calls))
     \<and> fst (get_soundcloud_queries env' url') \<noteq> Inr []"
proof -
  have a: "locate_exe env = (Some p, calls) \<and> p \<noteq> [] \<and>
      finds_nothing (extract_with_ydl env u [p]) \<longrightarrow>
        get_soundcloud_queries env url =
          (Inl (Exn RuntimeError
             (py ''yt-dlp could not extract the SoundCloud set.'' @
              failure_reason (python_api env u)
                (py ''Python API returned no entries even after full extraction'')
                (py ''Python API error: '') @
              py ''.'' @
              failure_reason (extract_with_ydl env u [sys_executable env, py ''-m'', py ''yt_dlp''])
                (py ''python -m yt_dlp returned no entries even after full extraction'')
                (py ''python -m yt_dlp error: '') @
              py ''.'' @
              failure_reason (extract_with_ydl env u [p])
                (py ''yt-dlp executable returned no entries even after full extraction'')
                (py ''Executable error: ''))),
           attempt_calls (python_api env u) (python_api_call u) @
           attempt_calls (extract_with_ydl env u [sys_executable env, py ''-m'', py ''yt_dlp''])
             (extract_with_ydl_call u [sys_executable env, py ''-m'', py ''yt_dlp'']) @
           calls @
           attempt_calls (extract_with_ydl env u [p]) (extract_with_ydl_call u [p]))"
    using assms
    by (simp add: get_soundcloud_queries_def tier1_def tier2_def tier3_def
        run_tier_finds_nothing extraction_failed_summary_def)
  have b: "locate_exe env = (exe, calls) \<and> (exe = None \<or> exe = Some []) \<longrightarrow>
        get_soundcloud_queries env url =
          (Inl (Exn RuntimeError
             (py ''yt-dlp could not extract the SoundCloud set.'' @
              failure_reason (python_api env u)
                (py ''Python API returned no entries even after full extraction'')
                (py ''Python API error: '') @
              py ''.'' @
              failure_reason (extract_with_ydl env u [sys_executable env, py ''-m'', py ''yt_dlp''])
                (py ''python -m yt_dlp returned no entries even after full extraction'')
                (py ''python -m yt_dlp error: '') @
              py ''.'' @
              py ''yt-dlp executable not found on PATH'')),
           attempt_calls (python_api env u) (python_api_call u) @
           attempt_calls (extract_with_ydl env u [sys_executable env, py ''-m'', py ''yt_dlp''])
             (extract_with_ydl_call u [sys_executable env, py ''-m'', py ''yt_dlp'']) @
           calls)"
    using assms
    by (auto simp add: get_soundcloud_queries_def tier1_def tier2_def tier3_def
        run_tier_finds_nothing extraction_failed_summary_def)
  from a b resolver_never_empty show ?thesis by (intro conjI)
qed

theorem exhausted_tiers_raise_aggregated_error_witness:
  "sanitize_sc_url (strip sample_url) = sample_url \<and> startswith sample_url (py ''http'')
   \<and> finds_nothing (python_api env_all_raise sample_url)
   \<and> finds_nothing (extract_with_ydl env_all_raise sample_url
        [sys_executable env_all_raise, py ''-m'', py ''yt_dlp''])
   \<and> locate_exe env_all_raise = (Some (py ''/usr/bin/yt-dlp''), [Which (py ''yt-dlp'')])
   \<and> py ''/usr/bin/yt-dlp'' \<noteq> []
   \<and> finds_nothing (extract_with_ydl env_all_raise sample_url [py ''/usr/bin/yt-dlp''])
   \<and> get_soundcloud_queries env_all_raise sample_url =
       (Inl (Exn RuntimeError (py ''yt-dlp could not extract the SoundCloud set.Python API error: ERROR: boom.python -m yt_dlp error: ERROR: boom.Executable error: ERROR: boom'')),
        [python_api_call sample_url True,
         extract_with_ydl_call sample_url [py ''/usr/bin/python3'', py ''-m'', py ''yt_dlp''] True,
         Which (py ''yt-dlp''),
         extract_with_ydl_call sample_url [py ''/usr/bin/yt-dlp''] True])
   \<and> finds_nothing (python_api env_all_empty sample_url)
   \<and> finds_nothing (extract_with_ydl env_all_empty sample_url
        [sys_executable env_all_empty, py ''-m'', py ''yt_dlp''])
   \<and> locate_exe env_all_empty = (Some (py ''/usr/bin/yt-dlp''), [Which (py ''yt-dlp'')])
   \<and> finds_nothing (extract_with_ydl env_all_empty sample_url [py ''/usr/bin/yt-dlp''])
   \<and> get_soundcloud_queries env_all_empty sample_url =
       (Inl (Exn RuntimeError (py ''yt-dlp could not extract the SoundCloud set.Python API returned no entries even after full extraction.python -m yt_dlp returned no entries even after full extraction.yt-dlp executable returned no entries even after full extraction'')),
        [python_api_call sample_url True, python_api_call sample_url False,
         extract_with_ydl_call sample_url [py ''/usr/bin/python3'', py ''-m'', py ''yt_dlp''] True,
         extract_with_ydl_call sample_url [py ''/usr/bin/python3'', py ''-m'', py ''yt_dlp''] False,
         Which (py ''yt-dlp''),
         extract_with_ydl_call sample_url [py ''/usr/bin/yt-dlp''] True,
         extract_with_ydl_call sample_url [py ''/usr/bin/yt-dlp''] False])
   \<and> finds_nothing (python_api env_nothing_installed sample_url)
   \<and> finds_nothing (extract_with_ydl env_nothing_installed sample_url
        [sys_executable env_nothing_installed, py ''-m'', py ''yt_dlp''])
   \<and> locate_exe env_nothing_installed =
        (None, [Which (py ''yt-dlp''), Which (py ''yt-dlp.exe'')])
   \<and> get_soundcloud_queries env_nothing_installed sample_url =
       (Inl (Exn RuntimeError (py ''yt-dlp could not extract the SoundCloud set.Python API error: No module named yt_dlp.python -m yt_dlp error: No module named yt_dlp.yt-dlp executable not found on PATH'')),
        [python_api_call sample_url True,
         extract_with_ydl_call sample_url [py ''/usr/bin/python3'', py ''-m'', py ''yt_dlp''] True,
         Which (py ''yt-dlp''), Which (py ''yt-dlp.exe'')])"
proof -
  have ne: "py ''/usr/bin/yt-dlp'' \<noteq> []"
    by (simp add: py_Nil_iff)
  have r1: "finds_nothing (python_api env_all_raise sample_url)"
    by (rule finds_nothing_raises) (rule api_raise)
  have r2: "finds_nothing (extract_with_ydl env_all_raise sample_url
        [sys_executable env_all_raise, py ''-m'', py ''yt_dlp''])"
    by (rule finds_nothing_raises) (rule ydl_raise)
  have r3: "finds_nothing (extract_with_ydl env_all_raise sample_url [py ''/usr/bin/yt-dlp''])"
    by (rule finds_nothing_raises) (rule ydl_raise)
  have e1: "finds_nothing (python_api env_all_empty sample_url)"
    by (rule finds_nothing_empty) (rule api_all_empty)+
  have e2: "finds_nothing (extract_with_ydl env_all_empty sample_url
        [sys_executable env_all_empty, py ''-m'', py ''yt_dlp''])"
    by (rule finds_nothing_empty) (rule ydl_all_empty)+
  have e3: "finds_nothing (extract_with_ydl env_all_empty sample_url [py ''/usr/bin/yt-dlp''])"
    by (rule finds_nothing_empty) (rule ydl_all_empty)+
  have i1: "finds_nothing (python_api env_nothing_installed sample_url)"
    by (rule finds_nothing_raises) (rule api_nothing_installed)
  have i2: "finds_nothing (extract_with_ydl env_nothing_installed sample_url
        [sys_executable env_nothing_installed, py ''-m'', py ''yt_dlp''])"
    by (rule finds_nothing_raises) (rule ydl_nothing_installed)
  have a: "get_soundcloud_queries env_all_raise sample_url =
       (Inl (Exn RuntimeError (py ''yt-dlp could not extract the SoundCloud set.Python API error: ERROR: boom.python -m yt_dlp error: ERROR: boom.Executable error: ERROR: boom'')),
        [python_api_call sample_url True,
         extract_with_ydl_call sample_url [py ''/usr/bin/python3'', py ''-m'', py ''yt_dlp''] True,
         Which (py ''yt-dlp''),
         extract_with_ydl_call sample_url [py ''/usr/bin/yt-dlp''] True])"
    using exhausted_tiers_raise_aggregated_error [OF sanitize_sample starts_sample r1 r2,
        where p = "py ''/usr/bin/yt-dlp''" and calls = "[Which (py ''yt-dlp'')]"]
      locate_all_raise ne r3
    by (simp add: failure_reason_def attempt_calls_def api_raise ydl_raise py_append
        sys_executable_all_raise)
  have b: "get_soundcloud_queries env_all_empty sample_url =
       (Inl (Exn RuntimeError (py ''yt-dlp could not extract the SoundCloud set.Python API returned no entries even after full extraction.python -m yt_dlp returned no entries even after full extraction.yt-dlp executable returned no entries even after full extraction'')),
        [python_api_call sample_url True, python_api_call sample_url False,
         extract_with_ydl_call sample_url [py ''/usr/bin/python3'', py ''-m'', py ''yt_dlp''] True,
         extract_with_ydl_call sample_url [py ''/usr/bin/python3'', py ''-m'', py ''yt_dlp''] False,
         Which (py ''yt-dlp''),
         extract_with_ydl_call sample_url [py ''/usr/bin/yt-dlp''] True,
         extract_with_ydl_call sample_url [py ''/usr/bin/yt-dlp''] False])"
    using exhausted_tiers_raise_aggregated_error [OF sanitize_sample starts_sample e1 e2,
        where p = "py ''/usr/bin/yt-dlp''" and calls = "[Which (py ''yt-dlp'')]"]
      locate_all_empty ne e3
    by (simp add: failure_reason_def attempt_calls_def api_all_empty ydl_all_empty py_append
        sys_executable_all_empty)
  have c: "get_soundcloud_queries env_nothing_installed sample_url =
       (Inl (Exn RuntimeError (py ''yt-dlp could not extract the SoundCloud set.Python API error: No module named yt_dlp.python -m yt_dlp error: No module named yt_dlp.yt-dlp executable not found on PATH'')),
        [python_api_call sample_url True,
         extract_with_ydl_call sample_url [py ''/usr/bin/python3'', py ''-m'', py ''yt_dlp''] True,
         Which (py ''yt-dlp''), Which (py ''yt-dlp.exe'')])"
    using exhausted_tiers_raise_aggregated_error [OF sanitize_sample starts_sample i1 i2,
        where exe = None and calls = "[Which (py ''yt-dlp''), Which (py ''yt-dlp.exe'')]"]
      locate_nothing_installed
    by (simp add: failure_reason_def attempt_calls_def api_nothing_installed
        ydl_nothing_installed py_append sys_executable_samples)
  from sanitize_sample starts_sample r1 r2 locate_all_raise ne r3 a
    e1 e2 locate_all_empty e3 b i1 i2 locate_nothing_installed c
  show ?thesis by (intro conjI)
qed

text \<open>
  C3, as the specification states it, fails: the check of the source is
  \<open>sc_url.startswith("http")\<close>, and \<open>httpfoo\<close> begins with neither \<open>http://\<close> nor
  \<open>https://\<close> but passes it, so the backends are attempted.
\<close>

theorem invalid_url_check_counterexample:
  "\<not> startswith (sanitize_sc_url (strip (py ''httpfoo''))) (py ''http://'')
   \<and> \<not> startswith (sanitize_sc_url (strip (py ''httpfoo''))) (py ''https://'')
   \<and> get_soundcloud_queries env_all_raise (py ''httpfoo'') =
       (Inl (Exn RuntimeError (py ''yt-dlp could not extract the SoundCloud set.Python API error: ERROR: boom.python -m yt_dlp error: ERROR: boom.Executable error: ERROR: boom'')),
        [python_api_call (py ''httpfoo'') True,
         extract_with_ydl_call (py ''httpfoo'') [py ''/usr/bin/python3'', py ''-m'', py ''yt_dlp''] True,
         Which (py ''yt-dlp''),
         extract_with_ydl_call (py ''httpfoo'') [py ''/usr/bin/yt-dlp''] True])"
proof -
  have "\<not> startswith (py ''httpfoo'') (py ''http://'')"
    and "\<not> startswith (py ''httpfoo'') (py ''https://'')"
    by (simp_all add: startswith_def py_def)
  then show ?thesis
    by (simp add: sanitize_httpfoo resolve_httpfoo)
qed

text \<open>
  C3, amended. When the trimmed, sanitized input does not begin with the four characters
  \<open>http\<close>, the resolver raises the \<open>ValueError\<close> with the remediation message and has
  called no backend. When it does begin with \<open>http\<close>, as every input with the scheme
  \<open>http://\<close> or \<open>https://\<close> does, the resolver raises no \<open>ValueError\<close> and its first
  call is the flat attempt of the library.
\<close>

theorem invalid_url_check:
  "(\<not> startswith (sanitize_sc_url (strip url)) (py ''http'') \<longrightarrow>
      get_soundcloud_queries env url = (Inl (Exn ValueError invalid_url_message), []))
   \<and> (startswith (sanitize_sc_url (strip url)) (py ''http'') \<longrightarrow>
        fst (get_soundcloud_queries env url) \<noteq> Inl (Exn ValueError m) \<and>
        (\<exists>rest. snd (get_soundcloud_queries env url) =
           python_api_call (sanitize_sc_url (strip url)) True # rest))
   \<and> (startswith (sanitize_sc_url (strip url)) (py ''http://'') \<or>
      startswith (sanitize_sc_url (strip url)) (py ''https://'') \<longrightarrow>
        startswith (sanitize_sc_url (strip url)) (py ''http''))"
proof (intro conjI impI)
  assume "\<not> startswith (sanitize_sc_url (strip url)) (py ''http'')"
  then show "get_soundcloud_queries env url = (Inl (Exn ValueError invalid_url_message), [])"
    by (simp add: get_soundcloud_queries_def)
next
  assume v: "startswith (sanitize_sc_url (strip url)) (py ''http'')"
  show "fst (get_soundcloud_queries env url) \<noteq> Inl (Exn ValueError m)"
  proof
    assume "fst (get_soundcloud_queries env url) = Inl (Exn ValueError m)"
    from resolver_error_class [OF this] v show False by simp
  qed
  from v show "\<exists>rest. snd (get_soundcloud_queries env url) =
           python_api_call (sanitize_sc_url (strip url)) True # rest"
    by (rule resolver_valid_trace)
next
  assume "startswith (sanitize_sc_url (strip url)) (py ''http://'') \<or>
      startswith (sanitize_sc_url (strip url)) (py ''https://'')"
  then show "startswith (sanitize_sc_url (strip url)) (py ''http'')"
    by (rule startswith_http)
qed

theorem invalid_url_check_witness:
  "\<not> startswith (sanitize_sc_url (strip (py ''m_source=clipboard&utm_medium=text''))) (py ''http'')
   \<and> get_soundcloud_queries env_full_only (py ''m_source=clipboard&utm_medium=text'') =
       (Inl (Exn ValueError invalid_url_message), [])
   \<and> startswith (sanitize_sc_url (strip sample_url)) (py ''https://'')
   \<and> startswith (sanitize_sc_url (strip sample_url)) (py ''http'')
   \<and> fst (get_soundcloud_queries env_full_only sample_url) \<noteq>
       Inl (Exn ValueError invalid_url_message)"
proof -
  have a: "\<not> startswith (sanitize_sc_url (strip (py ''m_source=clipboard&utm_medium=text''))) (py ''http'')"
    by (simp add: sanitize_test_url) (simp add: startswith_def py_def)
  have b: "startswith (sanitize_sc_url (strip sample_url)) (py ''https://'')"
    by (simp add: sanitize_sample) (simp add: startswith_def sample_url_def py_def)
  from invalid_url_check [of "py ''m_source=clipboard&utm_medium=text''" env_full_only]
    invalid_url_check [of sample_url env_full_only invalid_url_message] a b
  show ?thesis by blast
qed

text \<open>
  C1, as the specification states it, fails: both attempts of a tier stand in one \<open>try\<close>
  block, so an exception of the flat attempt leaves the block. When every backend raises,
  the trace holds the flat call of each tier and no full call.
\<close>

theorem flat_exception_skips_full_counterexample:
  "python_api env_all_raise sample_url True =
     Inl (Exn (OtherException (py ''DownloadError'')) (py ''ERROR: boom''))
   \<and> python_api_call sample_url False \<notin> set (snd (get_soundcloud_queries env_all_raise sample_url))
   \<and> snd (get_soundcloud_queries env_all_raise sample_url) =
       [python_api_call sample_url True,
        extract_with_ydl_call sample_url [py ''/usr/bin/python3'', py ''-m'', py ''yt_dlp''] True,
        Which (py ''yt-dlp''),
        extract_with_ydl_call sample_url [py ''/usr/bin/yt-dlp''] True]"
  by (simp add: api_raise resolve_all_raise python_api_call_def extract_with_ydl_call_def
      ydl_opts_eq)

text \<open>
  C1, amended. An exception here is an instance of \<open>Exception\<close>, which is what the
  \<open>except\<close> clause of a tier catches. In each of the three tiers an exception raised by
  the flat attempt ends the tier at once: the full attempt is not made, the error string
  of the tier with the text of the exception is recorded, and the trace grows by the flat
  call only. A flat attempt that yields tracks returns them, again without a full
  attempt. Only a flat attempt that yields no track leads to the full attempt of the same
  tier. For a URL that passes the check, a tier that found nothing is followed by the
  next one: after tier 1 the flat attempt of the interpreter module is made, after
  tier 2 the executable is looked up.
\<close>

theorem flat_exception_ends_tier:
  assumes "sanitize_sc_url (strip url) = u" and "startswith u (py ''http'')"
  shows
    "(python_api env u True = Inl exc \<longrightarrow>
        tier1 env u errors tr =
          (Continue (errors @ [py ''Python API error: '' @ str_of_exn exc]),
           tr @ [python_api_call u True]))
     \<and> (extract_with_ydl env u [sys_executable env, py ''-m'', py ''yt_dlp''] True = Inl exc \<longrightarrow>
        tier2 env u errors tr =
          (Continue (errors @ [py ''python -m yt_dlp error: '' @ str_of_exn exc]),
           tr @ [extract_with_ydl_call u [sys_executable env, py ''-m'', py ''yt_dlp''] True]))
     \<and> (locate_exe env = (Some p, calls) \<and> p \<noteq> [] \<and>
        extract_with_ydl env u [p] True = Inl exc \<longrightarrow>
        tier3 env u errors tr =
          (Continue (errors @ [py ''Executable error: '' @ str_of_exn exc]),
           tr @ calls @ [extract_with_ydl_call u [p] True]))
     \<and> (python_api env u True = Inr q \<and> q \<noteq> [] \<longrightarrow>
        tier1 env u errors tr = (Return q, tr @ [python_api_call u True]))
     \<and> (extract_with_ydl env u [sys_executable env, py ''-m'', py ''yt_dlp''] True = Inr q \<and>
        q \<noteq> [] \<longrightarrow>
        tier2 env u errors tr =
          (Return q,
           tr @ [extract_with_ydl_call u [sys_executable env, py ''-m'', py ''yt_dlp''] True]))
     \<and> (locate_exe env = (Some p, calls) \<and> p \<noteq> [] \<and>
        extract_with_ydl env u [p] True = Inr q \<and> q \<noteq> [] \<longrightarrow>
        tier3 env u errors tr = (Return q, tr @ calls @ [extract_with_ydl_call u [p] True]))
     \<and> (python_api env u True = Inr [] \<longrightarrow>
        snd (tier1 env u errors tr) = tr @ [python_api_call u True, python_api_call u False])
     \<and> (extract_with_ydl env u [sys_executable env, py ''-m'', py ''yt_dlp''] True = Inr [] \<longrightarrow>
        snd (tier2 env u errors tr) =
          tr @ [extract_with_ydl_call u [sys_executable env, py ''-m'', py ''yt_dlp''] True,
                extract_with_ydl_call u [sys_executable env, py ''-m'', py ''yt_dlp''] False])
     \<and> (locate_exe env = (Some p, calls) \<and> p \<noteq> [] \<and>
        extract_with_ydl env u [p] True = Inr [] \<longrightarrow>
        snd (tier3 env u errors tr) =
          tr @ calls @ [extract_with_ydl_call u [p] True, extract_with_ydl_call u [p] False])
     \<and> (finds_nothing (python_api env u) \<longrightarrow>
        (\<exists>rest. snd (get_soundcloud_queries env url) =
           attempt_calls (python_api env u) (python_api_call u) @
           extract_with_ydl_call u [sys_executable env, py ''-m'', py ''yt_dlp''] True # rest))
     \<and> (finds_nothing (python_api env u) \<and>
        finds_nothing (extract_with_ydl env u [sys_executable env, py ''-m'', py ''yt_dlp'']) \<longrightarrow>
        (\<exists>rest. snd (get_soundcloud_queries env url) =
           attempt_calls (python_api env u) (python_api_call u) @
           attempt_calls (extract_with_ydl env u [sys_executable env, py ''-m'', py ''yt_dlp''])
             (extract_with_ydl_call u [sys_executable env, py ''-m'', py ''yt_dlp'']) @
           Which (py ''yt-dlp'') # rest))"
proof -
  let ?m = "[sys_executable env, py ''-m'', py ''yt_dlp'']"
  have a1: "python_api env u True = Inl exc \<longrightarrow>
        tier1 env u errors tr =
          (Continue (errors @ [py ''Python API error: '' @ str_of_exn exc]),
           tr @ [python_api_call u True])"
    by (simp add: tier1_def run_tier_flat_raises)
  have a2: "extract_with_ydl env u ?m True = Inl exc \<longrightarrow>
        tier2 env u errors tr =
          (Continue (errors @ [py ''python -m yt_dlp error: '' @ str_of_exn exc]),
           tr @ [extract_with_ydl_call u ?m True])"
    by (simp add: tier2_def run_tier_flat_raises)
  have a3: "locate_exe env = (Some p, calls) \<and> p \<noteq> [] \<and>
        extract_with_ydl env u [p] True = Inl exc \<longrightarrow>
        tier3 env u errors tr =
          (Continue (errors @ [py ''Executable error: '' @ str_of_exn exc]),
           tr @ calls @ [extract_with_ydl_call u [p] True])"
    by (simp add: tier3_def run_tier_flat_raises)
  have b1: "python_api env u True = Inr q \<and> q \<noteq> [] \<longrightarrow>
        tier1 env u errors tr = (Return q, tr @ [python_api_call u True])"
    by (simp add: tier1_def run_tier_flat_result)
  have b2: "extract_with_ydl env u ?m True = Inr q \<and> q \<noteq> [] \<longrightarrow>
        tier2 env u errors tr = (Return q, tr @ [extract_with_ydl_call u ?m True])"
    by (simp add: tier2_def run_tier_flat_result)
  have b3: "locate_exe env = (Some p, calls) \<and> p \<noteq> [] \<and>
        extract_with_ydl env u [p] True = Inr q \<and> q \<noteq> [] \<longrightarrow>
        tier3 env u errors tr = (Return q, tr @ calls @ [extract_with_ydl_call u [p] True])"
    by (simp add: tier3_def run_tier_flat_result)
  have c1: "python_api env u True = Inr [] \<longrightarrow>
        snd (tier1 env u errors tr) = tr @ [python_api_call u True, python_api_call u False]"
    by (simp add: tier1_def run_tier_flat_empty)
  have c2: "extract_with_ydl env u ?m True = Inr [] \<longrightarrow>
        snd (tier2 env u errors tr) =
          tr @ [extract_with_ydl_call u ?m True, extract_with_ydl_call u ?m False]"
    by (simp add: tier2_def run_tier_flat_empty)
  have c3: "locate_exe env = (Some p, calls) \<and> p \<noteq> [] \<and>
        extract_with_ydl env u [p] True = Inr [] \<longrightarrow>
        snd (tier3 env u errors tr) =
          tr @ calls @ [extract_with_ydl_call u [p] True, extract_with_ydl_call u [p] False]"
    by (simp add: tier3_def run_tier_flat_empty)
  have d1: "finds_nothing (python_api env u) \<longrightarrow>
        (\<exists>rest. snd (get_soundcloud_queries env url) =
           attempt_calls (python_api env u) (python_api_call u) @
           extract_with_ydl_call u ?m True # rest)"
  proof
    assume "finds_nothing (python_api env u)"
    then have "tier1 env u [] [] =
        (Continue [failure_reason (python_api env u)
                     (py ''Python API returned no entries even after full extraction'')
                     (py ''Python API error: '')],
         attempt_calls (python_api env u) (python_api_call u))"
      by (simp add: tier1_def run_tier_finds_nothing)
    from resolver_after_tier1 [OF assms this]
    show "\<exists>rest. snd (get_soundcloud_queries env url) =
           attempt_calls (python_api env u) (python_api_call u) @
           extract_with_ydl_call u ?m True # rest" .
  qed
  have d2: "finds_nothing (python_api env u) \<and> finds_nothing (extract_with_ydl env u ?m) \<longrightarrow>
        (\<exists>rest. snd (get_soundcloud_queries env url) =
           attempt_calls (python_api env u) (python_api_call u) @
           attempt_calls (extract_with_ydl env u ?m) (extract_with_ydl_call u ?m) @
           Which (py ''yt-dlp'') # rest)"
  proof
    assume n: "finds_nothing (python_api env u) \<and> finds_nothing (extract_with_ydl env u ?m)"
    then have t1: "tier1 env u [] [] =
        (Continue [failure_reason (python_api env u)
                     (py ''Python API returned no entries even after full extraction'')
                     (py ''Python API error: '')],
         attempt_calls (python_api env u) (python_api_call u))"
      by (simp add: tier1_def run_tier_finds_nothing)
    from n have t2: "tier2 env u
         [failure_reason (python_api env u)
            (py ''Python API returned no entries even after full extraction'')
            (py ''Python API error: '')]
         (attempt_calls (python_api env u) (python_api_call u)) =
        (Continue [failure_reason (python_api env u)
                     (py ''Python API returned no entries even after full extraction'')
                     (py ''Python API error: ''),
                   failure_reason (extract_with_ydl env u ?m)
                     (py ''python -m yt_dlp returned no entries even after full extraction'')
                     (py ''python -m yt_dlp error: '')],
         attempt_calls (python_api env u) (python_api_call u) @
         attempt_calls (extract_with_ydl env u ?m) (extract_with_ydl_call u ?m))"
      by (simp add: tier2_def run_tier_finds_nothing)
    from resolver_after_tier2 [OF assms t1 t2]
    show "\<exists>rest. snd (get_soundcloud_queries env url) =
           attempt_calls (python_api env u) (python_api_call u) @
           attempt_calls (extract_with_ydl env u ?m) (extract_with_ydl_call u ?m) @
           Which (py ''yt-dlp'') # rest"
      by simp
  qed
  from a1 a2 a3 b1 b2 b3 c1 c2 c3 d1 d2 show ?thesis by (intro conjI)
qed

theorem flat_exception_ends_tier_witness:
  "sanitize_sc_url (strip sample_url) = sample_url \<and> startswith sample_url (py ''http'')
   \<and> python_api env_all_raise sample_url True =
        Inl (Exn (OtherException (py ''DownloadError'')) (py ''ERROR: boom''))
   \<and> extract_with_ydl env_all_raise sample_url
        [sys_executable env_all_raise, py ''-m'', py ''yt_dlp''] True =
        Inl (Exn RuntimeError (py ''ERROR: boom''))
   \<and> locate_exe env_all_raise = (Some (py ''/usr/bin/yt-dlp''), [Which (py ''yt-dlp'')])
   \<and> py ''/usr/bin/yt-dlp'' \<noteq> []
   \<and> extract_with_ydl env_all_raise sample_url [py ''/usr/bin/yt-dlp''] True =
        Inl (Exn RuntimeError (py ''ERROR: boom''))
   \<and> tier1 env_all_raise sample_url [] [] =
        (Continue [py ''Python API error: ERROR: boom''], [python_api_call sample_url True])
   \<and> tier2 env_all_raise sample_url [] [] =
        (Continue [py ''python -m yt_dlp error: ERROR: boom''],
         [extract_with_ydl_call sample_url [sys_executable env_all_raise, py ''-m'', py ''yt_dlp''] True])
   \<and> tier3 env_all_raise sample_url [] [] =
        (Continue [py ''Executable error: ERROR: boom''],
         [Which (py ''yt-dlp''), extract_with_ydl_call sample_url [py ''/usr/bin/yt-dlp''] True])
   \<and> python_api env_flat_works sample_url True = Inr [py ''Bar - Foo'', py ''Baz'']
   \<and> tier1 env_flat_works sample_url [] [] =
        (Return [py ''Bar - Foo'', py ''Baz''], [python_api_call sample_url True])
   \<and> extract_with_ydl env_module_works sample_url
        [sys_executable env_module_works, py ''-m'', py ''yt_dlp''] True =
        Inr [py ''Bar - Foo'', py ''Baz'']
   \<and> tier2 env_module_works sample_url [] [] =
        (Return [py ''Bar - Foo'', py ''Baz''],
         [extract_with_ydl_call sample_url
            [sys_executable env_module_works, py ''-m'', py ''yt_dlp''] True])
   \<and> locate_exe env_module_works = (Some (py ''/usr/bin/yt-dlp''), [Which (py ''yt-dlp'')])
   \<and> extract_with_ydl env_module_works sample_url [py ''/usr/bin/yt-dlp''] True =
        Inr [py ''Bar - Foo'', py ''Baz'']
   \<and> tier3 env_module_works sample_url [] [] =
        (Return [py ''Bar - Foo'', py ''Baz''],
         [Which (py ''yt-dlp''), extract_with_ydl_call sample_url [py ''/usr/bin/yt-dlp''] True])
   \<and> python_api env_all_empty sample_url True = Inr []
   \<and> extract_with_ydl env_all_empty sample_url
        [sys_executable env_all_empty, py ''-m'', py ''yt_dlp''] True = Inr []
   \<and> locate_exe env_all_empty = (Some (py ''/usr/bin/yt-dlp''), [Which (py ''yt-dlp'')])
   \<and> extract_with_ydl env_all_empty sample_url [py ''/usr/bin/yt-dlp''] True = Inr []
   \<and> snd (tier1 env_all_empty sample_url [] []) =
        [python_api_call sample_url True, python_api_call sample_url False]
   \<and> snd (tier2 env_all_empty sample_url [] []) =
        [extract_with_ydl_call sample_url [sys_executable env_all_empty, py ''-m'', py ''yt_dlp''] True,
         extract_with_ydl_call sample_url [sys_executable env_all_empty, py ''-m'', py ''yt_dlp''] False]
   \<and> snd (tier3 env_all_empty sample_url [] []) =
        [Which (py ''yt-dlp''), extract_with_ydl_call sample_url [py ''/usr/bin/yt-dlp''] True,
         extract_with_ydl_call sample_url [py ''/usr/bin/yt-dlp''] False]
   \<and> finds_nothing (python_api env_all_raise sample_url)
   \<and> finds_nothing (extract_with_ydl env_all_raise sample_url
        [sys_executable env_all_raise, py ''-m'', py ''yt_dlp''])
   \<and> (\<exists>rest. snd (get_soundcloud_queries env_all_raise sample_url) =
          [python_api_call sample_url True] @
          extract_with_ydl_call sample_url [sys_executable env_all_raise, py ''-m'', py ''yt_dlp''] True # rest)
   \<and> (\<exists>rest. snd (get_soundcloud_queries env_all_raise sample_url) =
          [python_api_call sample_url True] @
          [extract_with_ydl_call sample_url [sys_executable env_all_raise, py ''-m'', py ''yt_dlp''] True] @
          Which (py ''yt-dlp'') # rest)"
proof -
  have ne: "py ''/usr/bin/yt-dlp'' \<noteq> []"
    by (simp add: py_Nil_iff)
  note r = flat_exception_ends_tier [OF sanitize_sample starts_sample,
      where env = env_all_raise and errors = "[]" and tr = "[]"
        and p = "py ''/usr/bin/yt-dlp''" and calls = "[Which (py ''yt-dlp'')]"]
  note e = flat_exception_ends_tier [OF sanitize_sample starts_sample,
      where env = env_all_empty and errors = "[]" and tr = "[]"
        and p = "py ''/usr/bin/yt-dlp''" and calls = "[Which (py ''yt-dlp'')]"]
  note f = flat_exception_ends_tier [OF sanitize_sample starts_sample,
      where env = env_flat_works and errors = "[]" and tr = "[]"
        and q = "[py ''Bar - Foo'', py ''Baz'']"]
  note m = flat_exception_ends_tier [OF sanitize_sample starts_sample,
      where env = env_module_works and errors = "[]" and tr = "[]"
        and q = "[py ''Bar - Foo'', py ''Baz'']"
        and p = "py ''/usr/bin/yt-dlp''" and calls = "[Which (py ''yt-dlp'')]"]
  have n1: "finds_nothing (python_api env_all_raise sample_url)"
    by (rule finds_nothing_raises) (rule api_raise)
  have n2: "finds_nothing (extract_with_ydl env_all_raise sample_url
        [sys_executable env_all_raise, py ''-m'', py ''yt_dlp''])"
    by (rule finds_nothing_raises) (rule ydl_raise)
  have a1: "tier1 env_all_raise sample_url [] [] =
        (Continue [py ''Python API error: ERROR: boom''], [python_api_call sample_url True])"
    using r [where exc = "Exn (OtherException (py ''DownloadError'')) (py ''ERROR: boom'')"]
      api_raise by (simp add: py_append)
  have a2: "tier2 env_all_raise sample_url [] [] =
        (Continue [py ''python -m yt_dlp error: ERROR: boom''],
         [extract_with_ydl_call sample_url [sys_executable env_all_raise, py ''-m'', py ''yt_dlp''] True])"
    using r [where exc = "Exn RuntimeError (py ''ERROR: boom'')"] ydl_raise
    by (simp add: py_append)
  have a3: "tier3 env_all_raise sample_url [] [] =
        (Continue [py ''Executable error: ERROR: boom''],
         [Which (py ''yt-dlp''), extract_with_ydl_call sample_url [py ''/usr/bin/yt-dlp''] True])"
    using r [where exc = "Exn RuntimeError (py ''ERROR: boom'')"] locate_all_raise ne ydl_raise
    by (simp add: py_append)
  have b1: "tier1 env_flat_works sample_url [] [] =
        (Return [py ''Bar - Foo'', py ''Baz''], [python_api_call sample_url True])"
    using f api_flat_works by simp
  have b2: "tier2 env_module_works sample_url [] [] =
        (Return [py ''Bar - Foo'', py ''Baz''],
         [extract_with_ydl_call sample_url
            [sys_executable env_module_works, py ''-m'', py ''yt_dlp''] True])"
    using m ydl_module_works by simp
  have b3: "tier3 env_module_works sample_url [] [] =
        (Return [py ''Bar - Foo'', py ''Baz''],
         [Which (py ''yt-dlp''), extract_with_ydl_call sample_url [py ''/usr/bin/yt-dlp''] True])"
    using m locate_samples(1) ne ydl_module_works by simp
  have c1: "snd (tier1 env_all_empty sample_url [] []) =
        [python_api_call sample_url True, python_api_call sample_url False]"
    using e api_all_empty by simp
  have c2: "snd (tier2 env_all_empty sample_url [] []) =
        [extract_with_ydl_call sample_url [sys_executable env_all_empty, py ''-m'', py ''yt_dlp''] True,
         extract_with_ydl_call sample_url [sys_executable env_all_empty, py ''-m'', py ''yt_dlp''] False]"
    using e ydl_all_empty by simp
  have c3: "snd (tier3 env_all_empty sample_url [] []) =
        [Which (py ''yt-dlp''), extract_with_ydl_call sample_url [py ''/usr/bin/yt-dlp''] True,
         extract_with_ydl_call sample_url [py ''/usr/bin/yt-dlp''] False]"
    using e locate_all_empty ne ydl_all_empty by simp
  have d1: "\<exists>rest. snd (get_soundcloud_queries env_all_raise sample_url) =
          [python_api_call sample_url True] @
          extract_with_ydl_call sample_url [sys_executable env_all_raise, py ''-m'', py ''yt_dlp''] True # rest"
    using r n1 by (simp add: attempt_calls_def api_raise)
  have d2: "\<exists>rest. snd (get_soundcloud_queries env_all_raise sample_url) =
          [python_api_call sample_url True] @
          [extract_with_ydl_call sample_url [sys_executable env_all_raise, py ''-m'', py ''yt_dlp''] True] @
          Which (py ''yt-dlp'') # rest"
    using r n1 n2 by (simp add: attempt_calls_def api_raise ydl_raise)
  from sanitize_sample starts_sample api_raise ydl_raise locate_all_raise ne a1 a2 a3
    api_flat_works b1 ydl_module_works locate_samples(1) b2 b3
    api_all_empty ydl_all_empty locate_all_empty c1 c2 c3 n1 n2 d1 d2
  show ?thesis by (intro conjI)
qed

text \<open>
  C8, as the specification states it, fails: the source has no error kind of its own for
  an empty playlist. When every attempt runs without error and finds no track, the
  resolver raises a \<open>RuntimeError\<close>, the class it raises when every backend fails.
\<close>

theorem empty_playlist_error_kind_counterexample:
  "python_api env_all_empty sample_url True = Inr []
   \<and> python_api env_all_empty sample_url False = Inr []
   \<and> fst (get_soundcloud_queries env_all_empty sample_url) =
       Inl (Exn RuntimeError (py ''yt-dlp could not extract the SoundCloud set.Python API returned no entries even after full extraction.python -m yt_dlp returned no entries even after full extraction.yt-dlp executable returned no entries even after full extraction''))
   \<and> fst (get_soundcloud_queries env_all_raise sample_url) =
       Inl (Exn RuntimeError (py ''yt-dlp could not extract the SoundCloud set.Python API error: ERROR: boom.python -m yt_dlp error: ERROR: boom.Executable error: ERROR: boom''))"
  by (simp add: api_all_empty resolve_all_empty resolve_all_raise)

text \<open>
  C8, amended. For a URL that passes the check: when both attempts of all three tiers
  run without error and yield no track, the executable being found, the resolver raises
  a \<open>RuntimeError\<close> whose message is the summary followed by the three reasons that a
  tier returned no entries even after full extraction; when the flat attempt of every
  tier raises, it raises a \<open>RuntimeError\<close> as well, with the texts of the exceptions as
  reasons. Every exception the resolver raises for such a URL is a \<open>RuntimeError\<close>: the
  two cases differ in the message only.
\<close>

theorem empty_playlist_is_runtime_error:
  assumes "sanitize_sc_url (strip url) = u" and "startswith u (py ''http'')"
  shows
    "(python_api env u True = Inr [] \<and> python_api env u False = Inr [] \<and>
      extract_with_ydl env u [sys_executable env, py ''-m'', py ''yt_dlp''] True = Inr [] \<and>
      extract_with_ydl env u [sys_executable env, py ''-m'', py ''yt_dlp''] False = Inr [] \<and>
      locate_exe env = (Some p, calls) \<and> p \<noteq> [] \<and>
      extract_with_ydl env u [p] True = Inr [] \<and> extract_with_ydl env u [p] False = Inr [] \<longrightarrow>
        fst (get_soundcloud_queries env url) =
          Inl (Exn RuntimeError (extraction_failed_summary @
            py ''Python API returned no entries even after full extraction'' @ py ''.'' @
            py ''python -m yt_dlp returned no entries even after full extraction'' @ py ''.'' @
            py ''yt-dlp executable returned no entries even after full extraction'')))
     \<and> (python_api env u True = Inl x1 \<and>
        extract_with_ydl env u [sys_executable env, py ''-m'', py ''yt_dlp''] True = Inl x2 \<and>
        locate_exe env = (Some p, calls) \<and> p \<noteq> [] \<and>
        extract_with_ydl env u [p] True = Inl x3 \<longrightarrow>
        fst (get_soundcloud_queries env url) =
          Inl (Exn RuntimeError (extraction_failed_summary @
            py ''Python API error: '' @ str_of_exn x1 @ py ''.'' @
            py ''python -m yt_dlp error: '' @ str_of_exn x2 @ py ''.'' @
            py ''Executable error: '' @ str_of_exn x3)))
     \<and> (fst (get_soundcloud_queries env url) = Inl e \<longrightarrow> exn_class_of e = RuntimeError)"
proof (intro conjI impI)
  assume "python_api env u True = Inr [] \<and> python_api env u False = Inr [] \<and>
      extract_with_ydl env u [sys_executable env, py ''-m'', py ''yt_dlp''] True = Inr [] \<and>
      extract_with_ydl env u [sys_executable env, py ''-m'', py ''yt_dlp''] False = Inr [] \<and>
      locate_exe env = (Some p, calls) \<and> p \<noteq> [] \<and>
      extract_with_ydl env u [p] True = Inr [] \<and> extract_with_ydl env u [p] False = Inr []"
  then show "fst (get_soundcloud_queries env url) =
          Inl (Exn RuntimeError (extraction_failed_summary @
            py ''Python API returned no entries even after full extraction'' @ py ''.'' @
            py ''python -m yt_dlp returned no entries even after full extraction'' @ py ''.'' @
            py ''yt-dlp executable returned no entries even after full extraction''))"
    using assms
    by (simp add: get_soundcloud_queries_def tier1_def tier2_def tier3_def run_tier_both_empty)
next
  assume "python_api env u True = Inl x1 \<and>
        extract_with_ydl env u [sys_executable env, py ''-m'', py ''yt_dlp''] True = Inl x2 \<and>
        locate_exe env = (Some p, calls) \<and> p \<noteq> [] \<and>
        extract_with_ydl env u [p] True = Inl x3"
  then show "fst (get_soundcloud_queries env url) =
          Inl (Exn RuntimeError (extraction_failed_summary @
            py ''Python API error: '' @ str_of_exn x1 @ py ''.'' @
            py ''python -m yt_dlp error: '' @ str_of_exn x2 @ py ''.'' @
            py ''Executable error: '' @ str_of_exn x3))"
    using assms
    by (simp add: get_soundcloud_queries_def tier1_def tier2_def tier3_def run_tier_flat_raises)
next
  assume "fst (get_soundcloud_queries env url) = Inl e"
  from resolver_error_class [OF this] assms show "exn_class_of e = RuntimeError"
    by simp
qed

theorem empty_playlist_is_runtime_error_witness:
  "sanitize_sc_url (strip sample_url) = sample_url \<and> startswith sample_url (py ''http'')
   \<and> python_api env_all_empty sample_url True = Inr []
   \<and> python_api env_all_empty sample_url False = Inr []
   \<and> extract_with_ydl env_all_empty sample_url
        [sys_executable env_all_empty, py ''-m'', py ''yt_dlp''] True = Inr []
   \<and> extract_with_ydl env_all_empty sample_url
        [sys_executable env_all_empty, py ''-m'', py ''yt_dlp''] False = Inr []
   \<and> locate_exe env_all_empty = (Some (py ''/usr/bin/yt-dlp''), [Which (py ''yt-dlp'')])
   \<and> py ''/usr/bin/yt-dlp'' \<noteq> []
   \<and> extract_with_ydl env_all_empty sample_url [py ''/usr/bin/yt-dlp''] True = Inr []
   \<and> extract_with_ydl env_all_empty sample_url [py ''/usr/bin/yt-dlp''] False = Inr []
   \<and> python_api env_all_raise sample_url True =
        Inl (Exn (OtherException (py ''DownloadError'')) (py ''ERROR: boom''))
   \<and> extract_with_ydl env_all_raise sample_url
        [sys_executable env_all_raise, py ''-m'', py ''yt_dlp''] True =
        Inl (Exn RuntimeError (py ''ERROR: boom''))
   \<and> locate_exe env_all_raise = (Some (py ''/usr/bin/yt-dlp''), [Which (py ''yt-dlp'')])
   \<and> extract_with_ydl env_all_raise sample_url [py ''/usr/bin/yt-dlp''] True =
        Inl (Exn RuntimeError (py ''ERROR: boom''))
   \<and> fst (get_soundcloud_queries env_all_empty sample_url) =
        Inl (Exn RuntimeError (py ''yt-dlp could not extract the SoundCloud set.Python API returned no entries even after full extraction.python -m yt_dlp returned no entries even after full extraction.yt-dlp executable returned no entries even after full extraction''))
   \<and> fst (get_soundcloud_queries env_all_raise sample_url) =
        Inl (Exn RuntimeError (py ''yt-dlp could not extract the SoundCloud set.Python API error: ERROR: boom.python -m yt_dlp error: ERROR: boom.Executable error: ERROR: boom''))"
proof -
  have ne: "py ''/usr/bin/yt-dlp'' \<noteq> []"
    by (simp add: py_Nil_iff)
  note t = empty_playlist_is_runtime_error [OF sanitize_sample starts_sample,
      where p = "py ''/usr/bin/yt-dlp''" and calls = "[Which (py ''yt-dlp'')]"]
  have a: "fst (get_soundcloud_queries env_all_empty sample_url) =
        Inl (Exn RuntimeError (py ''yt-dlp could not extract the SoundCloud set.Python API returned no entries even after full extraction.python -m yt_dlp returned no entries even after full extraction.yt-dlp executable returned no entries even after full extraction''))"
    using t [where env = env_all_empty] api_all_empty ydl_all_empty locate_all_empty ne
    by (simp add: extraction_failed_summary_def py_append)
  have b: "fst (get_soundcloud_queries env_all_raise sample_url) =
        Inl (Exn RuntimeError (py ''yt-dlp could not extract the SoundCloud set.Python API error: ERROR: boom.python -m yt_dlp error: ERROR: boom.Executable error: ERROR: boom''))"
    using t [where env = env_all_raise
        and ?x1.0 = "Exn (OtherException (py ''DownloadError'')) (py ''ERROR: boom'')"
        and ?x2.0 = "Exn RuntimeError (py ''ERROR: boom'')"
        and ?x3.0 = "Exn RuntimeError (py ''ERROR: boom'')"]
      api_raise ydl_raise locate_all_raise ne
    by (simp add: extraction_failed_summary_def py_append)
  from sanitize_sample starts_sample api_all_empty ydl_all_empty locate_all_empty ne
    api_raise ydl_raise locate_all_raise a b
  show ?thesis by (intro conjI)
qed

end
